theory Spec2Isabelle
  imports Complex_Main "HOL-Library.AList" "HOL-Library.Multiset"
    "HOL-Library.List_Lexorder" "HOL-Library.Char_ord"
begin

section \<open>Python values read from and written to the JSON documents\<close>

text \<open>
  The three documents of \<^verbatim>\<open>bot.py\<close> hold whatever \<^verbatim>\<open>json.load\<close> returns, and the
  managers inspect these values dynamically (\<^verbatim>\<open>isinstance\<close>, \<^verbatim>\<open>in\<close>, \<^verbatim>\<open>==\<close>). The model
  keeps them dynamic. A float is a rational or one of the three special values, which
  covers every value a Python float can take. A dictionary is an association list in
  insertion order, as Python dictionaries are; the dictionaries \<^verbatim>\<open>json.load\<close> builds have
  pairwise different keys. A string is a list of characters, one per code point.
\<close>

datatype pyfloat = Finite rat | PosInf | NegInf | NaN

datatype json =
    JNull
  | JBool bool
  | JInt int
  | JFloat pyfloat
  | JStr string
  | JList "json list"
  | JDict "(string \<times> json) list"

datatype pyerr = TypeError | AttributeError | JSONDecodeError | OSError

text \<open>\<^verbatim>\<open>isinstance(x, (dict, list))\<close>\<close>

fun is_container :: "json \<Rightarrow> bool" where
  "is_container (JList _) = True"
| "is_container (JDict _) = True"
| "is_container _ = False"

text \<open>The number a value stands for in a comparison: \<^verbatim>\<open>bool\<close> is a subclass of \<^verbatim>\<open>int\<close>.\<close>

fun num_of :: "json \<Rightarrow> pyfloat option" where
  "num_of (JInt n) = Some (Finite (of_int n))"
| "num_of (JBool b) = Some (Finite (if b then 1 else 0))"
| "num_of (JFloat f) = Some f"
| "num_of _ = None"

definition num_eq :: "pyfloat \<Rightarrow> pyfloat \<Rightarrow> bool" where
  "num_eq a b = (a \<noteq> NaN \<and> a = b)"

fun num_lt :: "pyfloat \<Rightarrow> pyfloat \<Rightarrow> bool" where
  "num_lt (Finite a) (Finite b) = (a < b)"
| "num_lt (Finite a) PosInf = True"
| "num_lt NegInf (Finite b) = True"
| "num_lt NegInf PosInf = True"
| "num_lt _ _ = False"

text \<open>Python's \<^verbatim>\<open>==\<close> on the values above.\<close>

fun py_eq :: "json \<Rightarrow> json \<Rightarrow> bool"
  and py_eq_list :: "json list \<Rightarrow> json list \<Rightarrow> bool"
  and py_eq_items :: "(string \<times> json) list \<Rightarrow> (string \<times> json) list \<Rightarrow> bool" where
  "py_eq JNull b = (b = JNull)"
| "py_eq (JBool x) b = (case num_of b of Some g \<Rightarrow> num_eq (Finite (if x then 1 else 0)) g | None \<Rightarrow> False)"
| "py_eq (JInt n) b = (case num_of b of Some g \<Rightarrow> num_eq (Finite (of_int n)) g | None \<Rightarrow> False)"
| "py_eq (JFloat f) b = (case num_of b of Some g \<Rightarrow> num_eq f g | None \<Rightarrow> False)"
| "py_eq (JStr s) b = (b = JStr s)"
| "py_eq (JList xs) b = (case b of JList ys \<Rightarrow> py_eq_list xs ys | _ \<Rightarrow> False)"
| "py_eq (JDict kvs) b =
     (case b of JDict kws \<Rightarrow> length kvs = length kws \<and> py_eq_items kvs kws | _ \<Rightarrow> False)"
| "py_eq_list [] ys = (ys = [])"
| "py_eq_list (x # xs) ys = (case ys of [] \<Rightarrow> False | y # ys' \<Rightarrow> py_eq x y \<and> py_eq_list xs ys')"
| "py_eq_items [] kws = True"
| "py_eq_items (kv # kvs) kws =
     (case map_of kws (fst kv) of None \<Rightarrow> False
      | Some w \<Rightarrow> py_eq (snd kv) w \<and> py_eq_items kvs kws)"

text \<open>\<^verbatim>\<open>x in xs\<close> for a list \<^verbatim>\<open>xs\<close>.\<close>

definition py_in :: "json \<Rightarrow> json list \<Rightarrow> bool" where
  "py_in x xs = list_ex (py_eq x) xs"

text \<open>\<^verbatim>\<open>isinstance(uid, int) and uid > 0\<close>\<close>

fun valid_id :: "json \<Rightarrow> bool" where
  "valid_id (JInt n) = (0 < n)"
| "valid_id (JBool b) = b"
| "valid_id _ = False"

section \<open>The file system\<close>

text \<open>
  A path names no file, a file that \<^verbatim>\<open>open\<close> or \<^verbatim>\<open>json.load\<close> rejects, or a file that
  parses to a value. Opening a path for writing may raise; \<^verbatim>\<open>unwritable\<close> holds those
  paths, and their content stays as it is. The trace records every access.

  What the model leaves to the \<^verbatim>\<open>json\<close> library: the text \<^verbatim>\<open>json.dump\<close> writes and that
  \<^verbatim>\<open>json.load\<close> gives the value back from it. A file is represented by the value it parses
  to, and a write that was opened leaves the file holding the value written. This is
  exact for the values of this model, whose strings have code points below 256, all of
  which UTF-8 encodes. It says nothing of a string with a lone surrogate, which
  \<^verbatim>\<open>json.load\<close> can return and on which \<^verbatim>\<open>json.dump(..., ensure_ascii=False)\<close> raises after
  \<^verbatim>\<open>open(..., 'w')\<close> has emptied the file; nor of the digits written for a float. No
  statement below is about the fidelity of that text.
\<close>

datatype fstate = Missing | Corrupt | Holds json

datatype io = Read string | Write string

record disk =
  files :: "string \<Rightarrow> fstate"
  unwritable :: "string \<Rightarrow> bool"
  trace :: "io list"

definition SUBSCRIBERS_FILE :: string where "SUBSCRIBERS_FILE = ''subscribers.json''"
definition ANNOUNCEMENTS_FILE :: string where "ANNOUNCEMENTS_FILE = ''announcements.json''"
definition READ_RECEIPTS_FILE :: string where "READ_RECEIPTS_FILE = ''read_receipts.json''"

text \<open>\<^verbatim>\<open>ANNOUNCEMENT_RETENTION_DAYS = 10\<close>, in microseconds.\<close>

definition RETENTION :: int where "RETENTION = 10 * 86400 * 1000000"

fun is_prefix :: "string \<Rightarrow> string \<Rightarrow> bool" where
  "is_prefix [] ys = True"
| "is_prefix (x # xs) [] = False"
| "is_prefix (x # xs) (y # ys) = (x = y \<and> is_prefix xs ys)"

text \<open>\<^verbatim>\<open>sub in s\<close> for strings.\<close>

fun contains :: "string \<Rightarrow> string \<Rightarrow> bool" where
  "contains sub [] = (sub = [])"
| "contains sub (c # cs) = (is_prefix sub (c # cs) \<or> contains sub cs)"

text \<open>\<^verbatim>\<open>[] if 'subscribers' in file_path else {}\<close>\<close>

definition path_default :: "string \<Rightarrow> json" where
  "path_default p = (if contains ''subscribers'' p then JList [] else JDict [])"

text \<open>\<^verbatim>\<open>_read_file_sync\<close>: \<^verbatim>\<open>None\<close> for an absent file, else what \<^verbatim>\<open>json.load\<close> gives.\<close>

definition read_file_sync :: "disk \<Rightarrow> string \<Rightarrow> (pyerr + json) \<times> disk" where
  "read_file_sync d p =
     (case files d p of
        Missing \<Rightarrow> Inr JNull
      | Corrupt \<Rightarrow> Inl JSONDecodeError
      | Holds v \<Rightarrow> Inr v,
      d\<lparr>trace := trace d @ [Read p]\<rparr>)"

text \<open>\<^verbatim>\<open>_write_file_sync\<close>\<close>

definition write_file_sync :: "disk \<Rightarrow> string \<Rightarrow> json \<Rightarrow> (pyerr + unit) \<times> disk" where
  "write_file_sync d p v =
     (if unwritable d p then (Inl OSError, d\<lparr>trace := trace d @ [Write p]\<rparr>)
      else (Inr (), d\<lparr>files := (files d)(p := Holds v), trace := trace d @ [Write p]\<rparr>))"

text \<open>
  \<^verbatim>\<open>load_json(file_path, default)\<close>; \<^verbatim>\<open>default=None\<close> is \<open>JNull\<close>. Every exception of
  the read ends at the last line of the function, which returns the fallback.
\<close>

definition load_json :: "disk \<Rightarrow> string \<Rightarrow> json \<Rightarrow> json \<times> disk" where
  "load_json d p dflt =
     (let (r, d') = read_file_sync d p;
          fallback = (if dflt \<noteq> JNull then dflt else path_default p)
      in case r of
           Inl e \<Rightarrow> (fallback, d')
         | Inr v \<Rightarrow>
             if v = JNull then (fallback, d')
             else if \<not> is_container v then (fallback, d')
             else (v, d'))"

text \<open>\<^verbatim>\<open>save_json(file_path, data)\<close>\<close>

definition save_json :: "disk \<Rightarrow> string \<Rightarrow> json \<Rightarrow> bool \<times> disk" where
  "save_json d p v =
     (if \<not> is_container v then (False, d)
      else case write_file_sync d p v of
             (Inl e, d') \<Rightarrow> (False, d')
           | (Inr u, d') \<Rightarrow> (True, d'))"

text \<open>
  The value \<^verbatim>\<open>atomic_read_modify_write\<close> hands to its callback: the file's content as
  parsed, the path-based default only when the file does not exist, and an exception
  (which ends the cycle) when the file does not parse.
\<close>

definition rmw_current :: "disk \<Rightarrow> string \<Rightarrow> pyerr + json" where
  "rmw_current d p =
     (case files d p of
        Missing \<Rightarrow> Inr (path_default p)
      | Corrupt \<Rightarrow> Inl JSONDecodeError
      | Holds v \<Rightarrow> Inr v)"

text \<open>\<^verbatim>\<open>atomic_read_modify_write(file_path, modify_callback)\<close>; \<^verbatim>\<open>(False, None)\<close> is \<open>(False, JNull)\<close>.\<close>

definition atomic_read_modify_write ::
  "disk \<Rightarrow> string \<Rightarrow> (json \<Rightarrow> json) \<Rightarrow> (bool \<times> json) \<times> disk" where
  "atomic_read_modify_write d p modify_callback =
     (let d1 = d\<lparr>trace := trace d @ [Read p]\<rparr> in
      case rmw_current d p of
        Inl e \<Rightarrow> ((False, JNull), d1)
      | Inr current_data \<Rightarrow>
          (let modified_data = modify_callback current_data in
           if \<not> is_container modified_data then ((False, JNull), d1)
           else case write_file_sync d1 p modified_data of
                  (Inl e, d2) \<Rightarrow> ((False, JNull), d2)
                | (Inr u, d2) \<Rightarrow> ((True, modified_data), d2)))"

text \<open>\<^verbatim>\<open>d.get(k, default)\<close> on a dictionary.\<close>

definition dict_get :: "(string \<times> json) list \<Rightarrow> string \<Rightarrow> json \<Rightarrow> json" where
  "dict_get kvs k dflt = (case map_of kvs k of None \<Rightarrow> dflt | Some v \<Rightarrow> v)"

section \<open>Subscribers\<close>

text \<open>The callback of \<^verbatim>\<open>SubscriberManager.add_subscriber\<close>.\<close>

definition modify_subscribers :: "json \<Rightarrow> json \<Rightarrow> json" where
  "modify_subscribers user_id current_data =
     (let cur = (case current_data of JList xs \<Rightarrow> xs | _ \<Rightarrow> [])
      in if \<not> py_in user_id cur then JList (cur @ [user_id]) else JList cur)"

text \<open>\<^verbatim>\<open>SubscriberManager.add_subscriber(user_id)\<close>\<close>

definition add_subscriber :: "disk \<Rightarrow> json \<Rightarrow> bool \<times> disk" where
  "add_subscriber d user_id =
     (if \<not> valid_id user_id then (False, d)
      else case atomic_read_modify_write d SUBSCRIBERS_FILE (modify_subscribers user_id) of
             ((success, m), d') \<Rightarrow> (success, d'))"

text \<open>The disk after \<open>n\<close> calls of \<^verbatim>\<open>add_subscriber\<close> with the same argument.\<close>

fun add_times :: "nat \<Rightarrow> json \<Rightarrow> disk \<Rightarrow> disk" where
  "add_times 0 u d = d"
| "add_times (Suc n) u d = add_times n u (snd (add_subscriber d u))"

text \<open>\<^verbatim>\<open>xs.count(u)\<close>: the number of entries equal to \<open>u\<close>.\<close>

definition occurrences :: "json \<Rightarrow> json list \<Rightarrow> nat" where
  "occurrences u xs = length (filter (py_eq u) xs)"

section \<open>Read receipts\<close>

text \<open>\<^verbatim>\<open>current_data[announcement_id]\<close> once the callback has made it a list.\<close>

definition receipt_list :: "(string \<times> json) list \<Rightarrow> string \<Rightarrow> json list" where
  "receipt_list kvs a = (case map_of kvs a of Some (JList us) \<Rightarrow> us | _ \<Rightarrow> [])"

text \<open>The inner \<^verbatim>\<open>modify_receipts\<close> of \<^verbatim>\<open>mark_as_read\<close>: the new document and the duplicate flag.\<close>

definition modify_receipts :: "string \<Rightarrow> json \<Rightarrow> json \<Rightarrow> json \<times> bool" where
  "modify_receipts announcement_id user_id current_data =
     (let c0 = (case current_data of JDict kvs \<Rightarrow> kvs | _ \<Rightarrow> []);
          c1 = (if map_of c0 announcement_id = None
                then AList.update announcement_id (JList []) c0 else c0);
          c2 = (case map_of c1 announcement_id of
                  Some (JList us) \<Rightarrow> c1
                | _ \<Rightarrow> AList.update announcement_id (JList []) c1)
      in if py_in user_id (receipt_list c2 announcement_id) then (JDict c2, True)
         else (JDict (AList.update announcement_id
                        (JList (receipt_list c2 announcement_id @ [user_id])) c2), False))"

text \<open>\<^verbatim>\<open>modify_callback\<close> keeps the document and drops the flag.\<close>

definition modify_callback :: "string \<Rightarrow> json \<Rightarrow> json \<Rightarrow> json" where
  "modify_callback announcement_id user_id current_data =
     fst (modify_receipts announcement_id user_id current_data)"

text \<open>
  \<^verbatim>\<open>x in c\<close> for any value \<^verbatim>\<open>c\<close>: a list compares its items, a dictionary looks the key
  up (its keys are strings; a list or dictionary cannot be hashed), a string looks for
  a substring; a value that is no container raises.
\<close>

fun py_contains :: "json \<Rightarrow> json \<Rightarrow> pyerr + bool" where
  "py_contains x (JList xs) = Inr (py_in x xs)"
| "py_contains x (JDict kvs) =
     (case x of
        JStr k \<Rightarrow> Inr (map_of kvs k \<noteq> None)
      | JList ys \<Rightarrow> Inl TypeError
      | JDict kws \<Rightarrow> Inl TypeError
      | _ \<Rightarrow> Inr False)"
| "py_contains x (JStr s) = (case x of JStr t \<Rightarrow> Inr (contains t s) | _ \<Rightarrow> Inl TypeError)"
| "py_contains x _ = Inl TypeError"

text \<open>\<^verbatim>\<open>ReadReceiptManager.mark_as_read(announcement_id, user_id)\<close>\<close>

definition mark_as_read :: "disk \<Rightarrow> string \<Rightarrow> json \<Rightarrow> (pyerr + bool \<times> bool) \<times> disk" where
  "mark_as_read d announcement_id user_id =
     (if announcement_id = [] \<or> \<not> valid_id user_id then (Inr (False, False), d)
      else case atomic_read_modify_write d READ_RECEIPTS_FILE
                  (modify_callback announcement_id user_id) of
             ((success, modified_data), d') \<Rightarrow>
               if \<not> success then (Inr (False, False), d')
               else (case modified_data of
                       JDict kvs \<Rightarrow>
                         (case map_of kvs announcement_id of
                            None \<Rightarrow> (Inr (success, False), d')
                          | Some users \<Rightarrow>
                              (case py_contains user_id users of
                                 Inl e \<Rightarrow> (Inl e, d')
                               | Inr dup \<Rightarrow> (Inr (success, dup), d')))
                     | JList xs \<Rightarrow>
                         (if py_in (JStr announcement_id) xs then (Inl AttributeError, d')
                          else (Inr (success, False), d'))
                     | _ \<Rightarrow> (Inl TypeError, d')))"

text \<open>\<^verbatim>\<open>ReadReceiptManager.get_read_count(announcement_id)\<close>\<close>

definition get_read_count :: "disk \<Rightarrow> string \<Rightarrow> (pyerr + int) \<times> disk" where
  "get_read_count d announcement_id =
     (if announcement_id = [] then (Inr 0, d)
      else case load_json d READ_RECEIPTS_FILE (JDict []) of
             (receipts, d') \<Rightarrow>
               (case receipts of
                  JDict kvs \<Rightarrow>
                    (case dict_get kvs announcement_id (JList []) of
                       JList us \<Rightarrow> (Inr (int (length us)), d')
                     | _ \<Rightarrow> (Inr 0, d'))
                | _ \<Rightarrow> (Inl AttributeError, d')))"

text \<open>
  \<^verbatim>\<open>[uid for uid in users if isinstance(uid, int) and uid > 0]\<close>: a dictionary yields its
  keys and a string its characters, none of which is an integer; any other value that
  is no list cannot be iterated.
\<close>

fun filter_ids :: "json \<Rightarrow> pyerr + json list" where
  "filter_ids (JList us) = Inr (filter valid_id us)"
| "filter_ids (JDict kvs) = Inr []"
| "filter_ids (JStr s) = Inr []"
| "filter_ids _ = Inl TypeError"

text \<open>\<^verbatim>\<open>ReadReceiptManager.get_read_users(announcement_id)\<close>\<close>

definition get_read_users :: "disk \<Rightarrow> string \<Rightarrow> (pyerr + json list) \<times> disk" where
  "get_read_users d announcement_id =
     (if announcement_id = [] then (Inr [], d)
      else case load_json d READ_RECEIPTS_FILE (JDict []) of
             (receipts, d') \<Rightarrow>
               (case receipts of
                  JDict kvs \<Rightarrow>
                    (filter_ids (dict_get kvs announcement_id (JList [])), d')
                | _ \<Rightarrow> (Inl AttributeError, d')))"

section \<open>Announcements\<close>

text \<open>Truth value of a Python value, as \<^verbatim>\<open>not x\<close> and \<^verbatim>\<open>x and y\<close> test it.\<close>

fun py_truthy :: "json \<Rightarrow> bool" where
  "py_truthy JNull = False"
| "py_truthy (JBool b) = b"
| "py_truthy (JInt n) = (n \<noteq> 0)"
| "py_truthy (JFloat f) = (f \<noteq> Finite 0)"
| "py_truthy (JStr s) = (s \<noteq> [])"
| "py_truthy (JList xs) = (xs \<noteq> [])"
| "py_truthy (JDict kvs) = (kvs \<noteq> [])"

text \<open>
  \<^verbatim>\<open>x[:n]\<close>: defined on strings and lists, an exception on every other value (for a
  dictionary too, whose exception the model calls \<open>TypeError\<close> as well).
\<close>

fun py_slice :: "nat \<Rightarrow> json \<Rightarrow> pyerr + json" where
  "py_slice n (JStr s) = Inr (JStr (take n s))"
| "py_slice n (JList xs) = Inr (JList (take n xs))"
| "py_slice n _ = Inl TypeError"

text \<open>\<^verbatim>\<open>len(x)\<close>\<close>

fun py_len :: "json \<Rightarrow> pyerr + int" where
  "py_len (JStr s) = Inr (int (length s))"
| "py_len (JList xs) = Inr (int (length xs))"
| "py_len (JDict kvs) = Inr (int (length kvs))"
| "py_len _ = Inl TypeError"

text \<open>
  \<^verbatim>\<open>AnnouncementManager.create_announcement(announcement_id, data)\<close>; \<open>now_iso\<close> is
  \<^verbatim>\<open>datetime.now().isoformat()\<close> at the call. The document is loaded before the required
  fields are looked for. Storing into a document that was loaded as a list raises.
\<close>

definition create_announcement ::
  "disk \<Rightarrow> string \<Rightarrow> string \<Rightarrow> json \<Rightarrow> (pyerr + bool) \<times> disk" where
  "create_announcement d now_iso announcement_id data =
     (case data of
        JDict flds \<Rightarrow>
          if announcement_id = [] then (Inr False, d)
          else (case load_json d ANNOUNCEMENTS_FILE (JDict []) of
            (announcements, d1) \<Rightarrow>
              if map_of flds ''sender_id'' = None \<or> map_of flds ''message_id'' = None
              then (Inr False, d1)
              else (case py_slice 500 (dict_get flds ''content'' (JStr [])) of
                Inl e \<Rightarrow> (Inl e, d1)
              | Inr content \<Rightarrow>
                 (case py_slice 200 (dict_get flds ''caption'' (JStr [])) of
                    Inl e \<Rightarrow> (Inl e, d1)
                  | Inr caption \<Rightarrow>
                     (let announcement_data =
                        [(''id'', JStr announcement_id),
                         (''timestamp'', JStr now_iso),
                         (''type'', dict_get flds ''type'' (JStr ''text'')),
                         (''sender_id'', dict_get flds ''sender_id'' JNull),
                         (''message_id'', dict_get flds ''message_id'' JNull),
                         (''content'',
                            if \<not> py_truthy content \<and> py_truthy caption then caption else content),
                         (''caption'', caption),
                         (''file_id'', dict_get flds ''file_id'' JNull),
                         (''file_name'', dict_get flds ''file_name'' JNull),
                         (''media_group_id'', dict_get flds ''media_group_id'' JNull)]
                      in case announcements of
                           JDict kvs \<Rightarrow>
                             (case save_json d1 ANNOUNCEMENTS_FILE
                                     (JDict (AList.update announcement_id (JDict announcement_data) kvs)) of
                                (ok, d2) \<Rightarrow> (Inr ok, d2))
                         | _ \<Rightarrow> (Inl TypeError, d1)))))
      | _ \<Rightarrow> (Inr False, d))"

text \<open>
  The filter loop of \<^verbatim>\<open>get_all_announcements\<close>: a record is kept when it is a dictionary
  whose \<^verbatim>\<open>id\<close> equals its key; the kept records are dictionaries, so they are stored
  as their fields.
\<close>

fun valid_announcements ::
  "(string \<times> json) list \<Rightarrow> (string \<times> (string \<times> json) list) list
     \<Rightarrow> (string \<times> (string \<times> json) list) list" where
  "valid_announcements [] acc = acc"
| "valid_announcements ((ann_id, ann_data) # rest) acc =
     valid_announcements rest
       (case ann_data of
          JDict flds \<Rightarrow>
            if py_eq (dict_get flds ''id'' JNull) (JStr ann_id)
            then AList.update ann_id flds acc else acc
        | _ \<Rightarrow> acc)"

text \<open>The sort key \<^verbatim>\<open>x[1].get('timestamp', '')\<close>.\<close>

definition timestamp_key :: "string \<times> (string \<times> json) list \<Rightarrow> json" where
  "timestamp_key x = dict_get (snd x) ''timestamp'' (JStr [])"

text \<open>Python's \<^verbatim>\<open><\<close>: numbers with numbers, strings with strings, lists with lists.\<close>

fun py_lt :: "json \<Rightarrow> json \<Rightarrow> pyerr + bool"
  and py_lt_list :: "json list \<Rightarrow> json list \<Rightarrow> pyerr + bool" where
  "py_lt JNull b = Inl TypeError"
| "py_lt (JBool x) b =
     (case num_of b of Some g \<Rightarrow> Inr (num_lt (Finite (if x then 1 else 0)) g) | None \<Rightarrow> Inl TypeError)"
| "py_lt (JInt n) b =
     (case num_of b of Some g \<Rightarrow> Inr (num_lt (Finite (of_int n)) g) | None \<Rightarrow> Inl TypeError)"
| "py_lt (JFloat f) b = (case num_of b of Some g \<Rightarrow> Inr (num_lt f g) | None \<Rightarrow> Inl TypeError)"
| "py_lt (JStr s) b = (case b of JStr t \<Rightarrow> Inr (s < t) | _ \<Rightarrow> Inl TypeError)"
| "py_lt (JList xs) b = (case b of JList ys \<Rightarrow> py_lt_list xs ys | _ \<Rightarrow> Inl TypeError)"
| "py_lt (JDict kvs) b = Inl TypeError"
| "py_lt_list [] ys = Inr (ys \<noteq> [])"
| "py_lt_list (x # xs) ys =
     (case ys of [] \<Rightarrow> Inr False
      | y # ys' \<Rightarrow> if py_eq x y then py_lt_list xs ys' else py_lt x y)"

text \<open>
  \<^verbatim>\<open>sorted(items, key=..., reverse=True)\<close>. Python reverses the list, sorts it stably in
  ascending order with \<^verbatim>\<open><\<close> alone, and reverses the result; a comparison that raises
  ends the sort. The ascending sort is insertion from the right, which puts an item
  before the items it is not greater than. It returns what Python's sort returns
  whenever \<^verbatim>\<open><\<close> orders the keys present totally (strings; numbers without NaN), and on
  two items it makes the one comparison Python makes. On keys that \<^verbatim>\<open><\<close> does not order
  totally (a NaN among numbers) Python compares other pairs and may return another
  order; the statements below are about string keys and about two items.
\<close>

fun insert_item ::
  "string \<times> (string \<times> json) list \<Rightarrow> (string \<times> (string \<times> json) list) list
     \<Rightarrow> pyerr + (string \<times> (string \<times> json) list) list" where
  "insert_item x [] = Inr [x]"
| "insert_item x (y # ys) =
     (case py_lt (timestamp_key y) (timestamp_key x) of
        Inl e \<Rightarrow> Inl e
      | Inr True \<Rightarrow> (case insert_item x ys of Inl e \<Rightarrow> Inl e | Inr r \<Rightarrow> Inr (y # r))
      | Inr False \<Rightarrow> Inr (x # y # ys))"

fun sort_items ::
  "(string \<times> (string \<times> json) list) list \<Rightarrow> pyerr + (string \<times> (string \<times> json) list) list" where
  "sort_items [] = Inr []"
| "sort_items (x # xs) = (case sort_items xs of Inl e \<Rightarrow> Inl e | Inr r \<Rightarrow> insert_item x r)"

definition sorted_reverse ::
  "(string \<times> (string \<times> json) list) list \<Rightarrow> pyerr + (string \<times> (string \<times> json) list) list" where
  "sorted_reverse items = (case sort_items (rev items) of Inl e \<Rightarrow> Inl e | Inr r \<Rightarrow> Inr (rev r))"

text \<open>\<^verbatim>\<open>dict(sorted_items)\<close>\<close>

definition dict_of_items :: "(string \<times> 'v) list \<Rightarrow> (string \<times> 'v) list" where
  "dict_of_items items = foldl (\<lambda>acc kv. AList.update (fst kv) (snd kv) acc) [] items"

text \<open>\<^verbatim>\<open>AnnouncementManager.get_all_announcements()\<close>; a document loaded as a list has no \<^verbatim>\<open>items\<close>.\<close>

definition get_all_announcements ::
  "disk \<Rightarrow> (pyerr + (string \<times> (string \<times> json) list) list) \<times> disk" where
  "get_all_announcements d =
     (case load_json d ANNOUNCEMENTS_FILE (JDict []) of
        (announcements, d1) \<Rightarrow>
          (case announcements of
             JDict kvs \<Rightarrow>
               (case sorted_reverse (valid_announcements kvs []) of
                  Inl e \<Rightarrow> (Inl e, d1)
                | Inr sorted_items \<Rightarrow> (Inr (dict_of_items sorted_items), d1))
           | _ \<Rightarrow> (Inl AttributeError, d1)))"

text \<open>\<^verbatim>\<open>AnnouncementManager.announcement_exists(announcement_id)\<close>\<close>

definition announcement_exists :: "disk \<Rightarrow> string \<Rightarrow> (pyerr + bool) \<times> disk" where
  "announcement_exists d announcement_id =
     (case load_json d ANNOUNCEMENTS_FILE (JDict []) of
        (announcements, d1) \<Rightarrow> (py_contains (JStr announcement_id) announcements, d1))"

text \<open>\<^verbatim>\<open>AnnouncementManager.get_announcements_count()\<close>\<close>

definition get_announcements_count :: "disk \<Rightarrow> (pyerr + int) \<times> disk" where
  "get_announcements_count d =
     (case load_json d ANNOUNCEMENTS_FILE (JDict []) of
        (announcements, d1) \<Rightarrow> (py_len announcements, d1))"

section \<open>Retention sweep\<close>

text \<open>
  The body of the \<^verbatim>\<open>try\<close> in the search loop of \<^verbatim>\<open>cleanup_old_announcements\<close>, for a
  record that is a dictionary. Times are microseconds on the local clock, and
  \<open>fromisoformat s\<close> is the naive time \<^verbatim>\<open>datetime.fromisoformat(s)\<close> denotes; it is
  \<open>None\<close> when the call raises \<^verbatim>\<open>ValueError\<close> and when it yields a time with an offset,
  whose comparison with the naive cut-off raises \<^verbatim>\<open>TypeError\<close>. A timestamp that is no
  string makes the call raise \<^verbatim>\<open>TypeError\<close>. Both exceptions mark the record.
\<close>

definition expired :: "(string \<Rightarrow> int option) \<Rightarrow> int \<Rightarrow> (string \<times> json) list \<Rightarrow> bool" where
  "expired fromisoformat cutoff_date flds =
     (case dict_get flds ''timestamp'' (JStr []) of
        JStr s \<Rightarrow>
          (case fromisoformat s of
             None \<Rightarrow> True
           | Some announcement_date \<Rightarrow> announcement_date < cutoff_date)
      | _ \<Rightarrow> True)"

text \<open>
  The search loop. A record that is no dictionary has no \<^verbatim>\<open>get\<close>; that exception is
  not one the loop catches, so it ends the whole function.
\<close>

fun announcements_to_delete ::
  "(string \<Rightarrow> int option) \<Rightarrow> int \<Rightarrow> (string \<times> json) list \<Rightarrow> pyerr + string list" where
  "announcements_to_delete f c [] = Inr []"
| "announcements_to_delete f c ((ann_id, ann_data) # rest) =
     (case ann_data of
        JDict flds \<Rightarrow>
          (case announcements_to_delete f c rest of
             Inl e \<Rightarrow> Inl e
           | Inr ids \<Rightarrow> Inr (if expired f c flds then ann_id # ids else ids))
      | _ \<Rightarrow> Inl AttributeError)"

text \<open>
  The delete loop, on the announcements, the receipts as loaded and the counter.
  \<^verbatim>\<open>del receipts[ann_id]\<close> raises when the receipts were loaded as a list.
\<close>

fun delete_announcements ::
  "string list \<Rightarrow> (string \<times> json) list \<Rightarrow> json \<Rightarrow> int
     \<Rightarrow> pyerr + (string \<times> json) list \<times> json \<times> int" where
  "delete_announcements [] announcements receipts deleted_count =
     Inr (announcements, receipts, deleted_count)"
| "delete_announcements (ann_id # ids) announcements receipts deleted_count =
     (let present = (map_of announcements ann_id \<noteq> None);
          announcements' = (if present then AList.delete ann_id announcements else announcements);
          deleted_count' = (if present then deleted_count + 1 else deleted_count)
      in case py_contains (JStr ann_id) receipts of
           Inl e \<Rightarrow> Inl e
         | Inr False \<Rightarrow> delete_announcements ids announcements' receipts deleted_count'
         | Inr True \<Rightarrow>
             (case receipts of
                JDict r \<Rightarrow>
                  delete_announcements ids announcements' (JDict (AList.delete ann_id r)) deleted_count'
              | _ \<Rightarrow> Inl TypeError))"

text \<open>
  \<^verbatim>\<open>cleanup_old_announcements()\<close>; \<open>now\<close> is \<^verbatim>\<open>datetime.now()\<close>. Every exception ends in
  the outer handler, which returns 0. The results of the two saves are not looked at.
\<close>

definition cleanup_old_announcements ::
  "disk \<Rightarrow> int \<Rightarrow> (string \<Rightarrow> int option) \<Rightarrow> int \<times> disk" where
  "cleanup_old_announcements d now fromisoformat =
     (case load_json d ANNOUNCEMENTS_FILE (JDict []) of
        (announcements, d1) \<Rightarrow>
     (case load_json d1 READ_RECEIPTS_FILE (JDict []) of
        (receipts, d2) \<Rightarrow>
          if \<not> py_truthy announcements then (0, d2)
          else (case announcements of
             JDict kvs \<Rightarrow>
               (case announcements_to_delete fromisoformat (now - RETENTION) kvs of
                  Inl e \<Rightarrow> (0, d2)
                | Inr ids \<Rightarrow>
                    (case delete_announcements ids kvs receipts 0 of
                       Inl e \<Rightarrow> (0, d2)
                     | Inr (announcements', receipts', deleted_count) \<Rightarrow>
                         if deleted_count > 0
                         then (case save_json d2 ANNOUNCEMENTS_FILE (JDict announcements') of
                                 (ok1, d3) \<Rightarrow>
                                   (case save_json d3 READ_RECEIPTS_FILE receipts' of
                                      (ok2, d4) \<Rightarrow> (deleted_count, d4)))
                         else (deleted_count, d2)))
           | _ \<Rightarrow> (0, d2))))"

section \<open>Notions used in the statements\<close>

text \<open>The subscribers file accepts writes and holds a list in which \<open>u\<close> occurs once.\<close>

definition once_stored :: "json \<Rightarrow> disk \<Rightarrow> bool" where
  "once_stored u d =
     (\<not> unwritable d SUBSCRIBERS_FILE \<and>
      (\<exists>ys. files d SUBSCRIBERS_FILE = Holds (JList ys) \<and> occurrences u ys = 1))"

text \<open>
  A stored entry is marked by the sweep: it is a dictionary for which the search loop
  appends the key to \<^verbatim>\<open>announcements_to_delete\<close>.
\<close>

definition marked :: "(string \<Rightarrow> int option) \<Rightarrow> int \<Rightarrow> string \<times> json \<Rightarrow> bool" where
  "marked f c kv = (case snd kv of JDict flds \<Rightarrow> expired f c flds | _ \<Rightarrow> False)"

text \<open>
  The records \<^verbatim>\<open>list_all()\<close> is to return, in the order of the stored document: those
  that are mappings whose \<^verbatim>\<open>id\<close> field is their storage key.
\<close>

definition kept_records :: "(string \<times> json) list \<Rightarrow> (string \<times> (string \<times> json) list) list" where
  "kept_records kvs =
     concat (map (\<lambda>kv. case snd kv of
                          JDict flds \<Rightarrow>
                            if dict_get flds ''id'' JNull = JStr (fst kv) then [(fst kv, flds)] else []
                        | _ \<Rightarrow> []) kvs)"

text \<open>The timestamp of a record whose timestamp is a string.\<close>

definition timestamp_str :: "string \<times> (string \<times> json) list \<Rightarrow> string" where
  "timestamp_str x = (case timestamp_key x of JStr s \<Rightarrow> s | _ \<Rightarrow> [])"

section \<open>States used in the examples\<close>

definition empty_disk :: disk where
  "empty_disk = \<lparr>files = (\<lambda>p. Missing), unwritable = (\<lambda>p. False), trace = []\<rparr>"

definition mixed_receipts_disk :: disk where
  "mixed_receipts_disk =
     \<lparr>files = (\<lambda>p. Missing)(READ_RECEIPTS_FILE :=
         Holds (JDict [(''ab12cd34'', JList [JInt 1, JStr ''x'', JInt (- 3)])])),
      unwritable = (\<lambda>p. False), trace = []\<rparr>"

definition listing_doc :: "(string \<times> json) list" where
  "listing_doc =
     [(''aaaa0001'', JDict [(''id'', JStr ''aaaa0001''), (''timestamp'', JStr ''2026-01-03T00:00:00'')]),
      (''bbbb0002'', JDict [(''id'', JStr ''zzzz9999''), (''timestamp'', JStr ''2026-01-09T00:00:00'')]),
      (''cccc0003'', JDict [(''id'', JStr ''cccc0003''), (''timestamp'', JStr ''2026-01-05T00:00:00'')]),
      (''dddd0004'', JDict [(''id'', JStr ''dddd0004''), (''timestamp'', JStr ''2026-01-03T00:00:00'')]),
      (''eeee0005'', JInt 5)]"

definition listing_disk :: disk where
  "listing_disk =
     \<lparr>files = (\<lambda>p. Missing)(ANNOUNCEMENTS_FILE := Holds (JDict listing_doc)),
      unwritable = (\<lambda>p. False), trace = []\<rparr>"

definition subscribed_disk :: disk where
  "subscribed_disk =
     \<lparr>files = (\<lambda>p. Missing)(SUBSCRIBERS_FILE := Holds (JList [JInt 3, JInt 7])),
      unwritable = (\<lambda>p. False), trace = []\<rparr>"

definition scalar_subscribers_disk :: disk where
  "scalar_subscribers_disk =
     \<lparr>files = (\<lambda>p. Missing)(SUBSCRIBERS_FILE := Holds (JInt 5)),
      unwritable = (\<lambda>p. False), trace = []\<rparr>"

definition corrupt_subscribers_disk :: disk where
  "corrupt_subscribers_disk =
     \<lparr>files = (\<lambda>p. Missing)(SUBSCRIBERS_FILE := Corrupt),
      unwritable = (\<lambda>p. False), trace = []\<rparr>"

text \<open>A clock for the examples: two timestamps it can read, and the present, eleven days after the first.\<close>

definition DAY :: int where "DAY = 86400 * 1000000"

definition sample_fromisoformat :: "string \<Rightarrow> int option" where
  "sample_fromisoformat s =
     (if s = ''2026-01-01T00:00:00'' then Some 0
      else if s = ''2026-01-03T00:00:00'' then Some (2 * DAY)
      else None)"

definition sample_now :: int where "sample_now = 11 * DAY"

definition old_record :: "string \<times> json" where
  "old_record =
     (''old00001'', JDict [(''id'', JStr ''old00001''), (''timestamp'', JStr ''2026-01-01T00:00:00'')])"

definition new_record :: "string \<times> json" where
  "new_record =
     (''new00002'', JDict [(''id'', JStr ''new00002''), (''timestamp'', JStr ''2026-01-03T00:00:00'')])"

definition bad_record :: "string \<times> json" where
  "bad_record =
     (''bad00003'', JDict [(''id'', JStr ''bad00003''), (''timestamp'', JStr ''yesterday'')])"

definition sweep_doc :: "(string \<times> json) list" where
  "sweep_doc = [old_record, new_record, bad_record]"

definition sweep_receipts :: "(string \<times> json) list" where
  "sweep_receipts =
     [(''old00001'', JList [JInt 7]), (''new00002'', JList [JInt 7, JInt 8])]"

definition sweep_disk :: disk where
  "sweep_disk =
     \<lparr>files = (\<lambda>p. Missing)(ANNOUNCEMENTS_FILE := Holds (JDict sweep_doc),
                              READ_RECEIPTS_FILE := Holds (JDict sweep_receipts)),
      unwritable = (\<lambda>p. False), trace = []\<rparr>"



text \<open>States on which the sweep and the listing do not do what a reader may expect.\<close>

definition scalar_record_disk :: disk where
  "scalar_record_disk =
     \<lparr>files = (\<lambda>p. Missing)(ANNOUNCEMENTS_FILE := Holds (JDict [(''bad00003'', JInt 5), old_record])),
      unwritable = (\<lambda>p. False), trace = []\<rparr>"

definition list_receipts_disk :: disk where
  "list_receipts_disk =
     \<lparr>files = (\<lambda>p. Missing)(ANNOUNCEMENTS_FILE := Holds (JDict [old_record]),
                              READ_RECEIPTS_FILE := Holds (JList [JStr ''old00001''])),
      unwritable = (\<lambda>p. False), trace = []\<rparr>"

definition readonly_disk :: disk where
  "readonly_disk =
     \<lparr>files = (\<lambda>p. Missing)(ANNOUNCEMENTS_FILE := Holds (JDict [old_record])),
      unwritable = (\<lambda>p. True), trace = []\<rparr>"

definition null_timestamp_disk :: disk where
  "null_timestamp_disk =
     \<lparr>files = (\<lambda>p. Missing)(ANNOUNCEMENTS_FILE := Holds (JDict
         [(''aaaa0001'', JDict [(''id'', JStr ''aaaa0001''), (''timestamp'', JNull)]),
          (''cccc0003'', JDict [(''id'', JStr ''cccc0003''), (''timestamp'', JStr ''2026-01-05T00:00:00'')])])),
      unwritable = (\<lambda>p. False), trace = []\<rparr>"

definition list_announcements_disk :: disk where
  "list_announcements_disk =
     \<lparr>files = (\<lambda>p. Missing)(ANNOUNCEMENTS_FILE := Holds (JList [])),
      unwritable = (\<lambda>p. False), trace = []\<rparr>"

section \<open>Properties\<close>

subsection \<open>Python values\<close>

lemma py_eq_valid_refl: "valid_id u \<Longrightarrow> py_eq u u"
  by (cases u) (simp_all add: num_eq_def)

lemma py_in_append: "py_in u (xs @ ys) = (py_in u xs \<or> py_in u ys)"
  by (simp add: py_in_def list_ex_append)

lemma py_in_single: "valid_id u \<Longrightarrow> py_in u [u]"
  by (simp add: py_in_def py_eq_valid_refl)

lemma py_eq_str: "py_eq v (JStr k) = (v = JStr k)"
  by (cases v) (auto split: json.splits)

lemma occurrences_zero: "occurrences u xs = 0 \<longleftrightarrow> \<not> py_in u xs"
  by (auto simp: occurrences_def py_in_def list_ex_iff filter_empty_conv)

lemma occurrences_snoc: "valid_id u \<Longrightarrow> occurrences u (xs @ [u]) = Suc (occurrences u xs)"
  by (simp add: occurrences_def py_eq_valid_refl)

lemma update_fresh: "k \<notin> fst ` set al \<Longrightarrow> AList.update k v al = al @ [(k, v)]"
  by (induction al) auto

lemma delete_filter: "AList.delete k al = filter (\<lambda>kv. fst kv \<noteq> k) al"
  by (induction al) (auto simp: AList.delete_eq)

lemma map_of_None_filter: "map_of al k = None \<Longrightarrow> filter (\<lambda>kv. fst kv \<noteq> k) al = al"
  by (induction al) (auto split: if_splits)

subsection \<open>Document store and atomic mutator\<close>

lemma load_json_snd: "snd (load_json d p dflt) = d\<lparr>trace := trace d @ [Read p]\<rparr>"
  by (simp add: load_json_def read_file_sync_def Let_def split: fstate.splits)

lemma load_json_fst_files:
  "files d p = files d' p \<Longrightarrow> fst (load_json d p dflt) = fst (load_json d' p dflt)"
  by (simp add: load_json_def read_file_sync_def Let_def split: fstate.splits)

lemma load_json_holds:
  "files d p = Holds v \<Longrightarrow> is_container v \<Longrightarrow> fst (load_json d p dflt) = v"
  by (cases v) (simp_all add: load_json_def read_file_sync_def Let_def)

lemma load_json_pair:
  "load_json d p dflt = (fst (load_json d p dflt), d\<lparr>trace := trace d @ [Read p]\<rparr>)"
  by (metis load_json_snd prod.collapse)

lemma paths_differ: "ANNOUNCEMENTS_FILE \<noteq> READ_RECEIPTS_FILE"
  by (simp add: ANNOUNCEMENTS_FILE_def READ_RECEIPTS_FILE_def)

lemma subscribers_path_default: "path_default SUBSCRIBERS_FILE = JList []"
  by (simp add: path_default_def SUBSCRIBERS_FILE_def)

lemma rmw_write_ok:
  assumes "rmw_current d p = Inr c" "is_container (f c)" "\<not> unwritable d p"
  shows "atomic_read_modify_write d p f =
           ((True, f c), d\<lparr>files := (files d)(p := Holds (f c)), trace := trace d @ [Read p, Write p]\<rparr>)"
  using assms by (simp add: atomic_read_modify_write_def write_file_sync_def Let_def)

text \<open>
  In this model a container saved to a path that accepts the write is what a following
  load returns, whatever default the load is given, and a value that is neither a
  mapping nor a sequence makes the save return failure with the disk, its files and
  its trace, as it was. The first part rests on the representation of files described
  with the file system; the second is the check at the head of \<^verbatim>\<open>save_json\<close>.
\<close>

lemma save_then_load:
  "(is_container D \<and> \<not> unwritable d p \<longrightarrow>
      fst (save_json d p D) = True \<and> fst (load_json (snd (save_json d p D)) p dflt) = D)
   \<and> (fst (save_json d p D) = True \<longrightarrow> fst (load_json (snd (save_json d p D)) p dflt) = D)
   \<and> (\<not> is_container D \<longrightarrow> save_json d p D = (False, d))"
proof -
  have ok: "fst (load_json (snd (save_json d p D)) p dflt) = D"
    if "is_container D" "\<not> unwritable d p"
    using that by (intro load_json_holds) (simp_all add: save_json_def write_file_sync_def)
  have succ: "is_container D \<and> \<not> unwritable d p" if "fst (save_json d p D) = True"
    using that by (cases "is_container D"; cases "unwritable d p")
      (simp_all add: save_json_def write_file_sync_def)
  have yes: "fst (save_json d p D) = True" if "is_container D" "\<not> unwritable d p"
    using that by (simp add: save_json_def write_file_sync_def)
  have no: "save_json d p D = (False, d)" if "\<not> is_container D"
    using that by (simp add: save_json_def)
  show ?thesis
    using ok succ yes no by blast
qed

lemma save_then_load_example:
  "is_container (JDict [(''k'', JList [JInt 1, JFloat (Finite (1/2)), JStr ''s'', JBool True, JNull])])
   \<and> \<not> unwritable empty_disk ''data/doc.json''
   \<and> fst (save_json empty_disk ''data/doc.json''
            (JDict [(''k'', JList [JInt 1, JFloat (Finite (1/2)), JStr ''s'', JBool True, JNull])])) = True
   \<and> fst (load_json (snd (save_json empty_disk ''data/doc.json''
            (JDict [(''k'', JList [JInt 1, JFloat (Finite (1/2)), JStr ''s'', JBool True, JNull])])))
          ''data/doc.json'' (JList [])) =
       JDict [(''k'', JList [JInt 1, JFloat (Finite (1/2)), JStr ''s'', JBool True, JNull])]
   \<and> \<not> is_container (JStr ''text'')
   \<and> save_json empty_disk ''data/doc.json'' (JStr ''text'') = (False, empty_disk)"
  using save_then_load[of "JDict [(''k'', JList [JInt 1, JFloat (Finite (1/2)), JStr ''s'', JBool True, JNull])]"
      empty_disk "''data/doc.json''" "JList []"]
    save_then_load[of "JStr ''text''" empty_disk "''data/doc.json''" "JList []"]
  by (simp add: empty_disk_def)

text \<open>
  Claim C9, as the code has it. With no default supplied, \<^verbatim>\<open>load_json\<close> returns the
  path-based default (the empty list when the path contains \<^verbatim>\<open>subscribers\<close>, the empty
  mapping otherwise) when the file is absent, does not parse, or parses to a value that
  is neither a mapping nor a sequence. The atomic read-modify-write uses that default
  only for an absent file: content that parses is handed to the callback as it is,
  whatever its shape, and content that does not parse ends the cycle with
  \<^verbatim>\<open>(False, None)\<close>, the callback not being called and no file written.
\<close>

theorem default_document_rule:
  "(files d p = Missing \<or> files d p = Corrupt \<or> (\<exists>v. files d p = Holds v \<and> \<not> is_container v)
      \<longrightarrow> fst (load_json d p JNull) = path_default p)
   \<and> path_default p = (if contains ''subscribers'' p then JList [] else JDict [])
   \<and> (files d p = Missing \<longrightarrow> rmw_current d p = Inr (path_default p))
   \<and> (files d p = Holds w \<longrightarrow> rmw_current d p = Inr w)
   \<and> (files d p = Corrupt \<longrightarrow>
        atomic_read_modify_write d p f = ((False, JNull), d\<lparr>trace := trace d @ [Read p]\<rparr>))
   \<and> (rmw_current d p = Inr c \<and> is_container (f c) \<and> \<not> unwritable d p \<longrightarrow>
        fst (atomic_read_modify_write d p f) = (True, f c))"
proof -
  have a: "fst (load_json d p JNull) = path_default p"
    if "files d p = Missing \<or> files d p = Corrupt \<or> (\<exists>v. files d p = Holds v \<and> \<not> is_container v)"
    using that by (auto simp: load_json_def read_file_sync_def Let_def)
  have b: "path_default p = (if contains ''subscribers'' p then JList [] else JDict [])"
    by (simp add: path_default_def)
  have c: "rmw_current d p = Inr (path_default p)" if "files d p = Missing"
    using that by (simp add: rmw_current_def)
  have e: "rmw_current d p = Inr w" if "files d p = Holds w"
    using that by (simp add: rmw_current_def)
  have g: "atomic_read_modify_write d p f = ((False, JNull), d\<lparr>trace := trace d @ [Read p]\<rparr>)"
    if "files d p = Corrupt"
    using that by (simp add: atomic_read_modify_write_def rmw_current_def)
  have h: "fst (atomic_read_modify_write d p f) = (True, f c)"
    if "rmw_current d p = Inr c \<and> is_container (f c) \<and> \<not> unwritable d p"
    using that by (simp add: rmw_write_ok)
  show ?thesis using a b c e g h by blast
qed

theorem default_document_rule_witness:
  "files empty_disk SUBSCRIBERS_FILE = Missing
   \<and> fst (load_json empty_disk SUBSCRIBERS_FILE JNull) = JList []
   \<and> fst (load_json empty_disk READ_RECEIPTS_FILE JNull) = JDict []
   \<and> rmw_current empty_disk SUBSCRIBERS_FILE = Inr (JList [])
   \<and> files scalar_subscribers_disk SUBSCRIBERS_FILE = Holds (JInt 5)
   \<and> \<not> is_container (JInt 5)
   \<and> fst (load_json scalar_subscribers_disk SUBSCRIBERS_FILE JNull) = JList []
   \<and> rmw_current scalar_subscribers_disk SUBSCRIBERS_FILE = Inr (JInt 5)
   \<and> files corrupt_subscribers_disk SUBSCRIBERS_FILE = Corrupt
   \<and> fst (load_json corrupt_subscribers_disk SUBSCRIBERS_FILE JNull) = JList []
   \<and> atomic_read_modify_write corrupt_subscribers_disk SUBSCRIBERS_FILE (modify_subscribers (JInt 7)) =
        ((False, JNull), corrupt_subscribers_disk\<lparr>trace := [Read SUBSCRIBERS_FILE]\<rparr>)
   \<and> is_container (modify_subscribers (JInt 7) (JList []))
   \<and> \<not> unwritable empty_disk SUBSCRIBERS_FILE
   \<and> fst (atomic_read_modify_write empty_disk SUBSCRIBERS_FILE (modify_subscribers (JInt 7))) =
        (True, JList [JInt 7])"
proof -
  have e: "files empty_disk SUBSCRIBERS_FILE = Missing" "files empty_disk READ_RECEIPTS_FILE = Missing"
    "\<not> unwritable empty_disk SUBSCRIBERS_FILE"
    by (simp_all add: empty_disk_def)
  have s: "files scalar_subscribers_disk SUBSCRIBERS_FILE = Holds (JInt 5)"
    by (simp add: scalar_subscribers_disk_def)
  have c: "files corrupt_subscribers_disk SUBSCRIBERS_FILE = Corrupt"
    "trace corrupt_subscribers_disk = []"
    by (simp_all add: corrupt_subscribers_disk_def)
  have p: "path_default SUBSCRIBERS_FILE = JList []" "path_default READ_RECEIPTS_FILE = JDict []"
    by (simp_all add: path_default_def SUBSCRIBERS_FILE_def READ_RECEIPTS_FILE_def)
  have m: "modify_subscribers (JInt 7) (JList []) = JList [JInt 7]"
    by (simp add: modify_subscribers_def py_in_def)
  show ?thesis
    using default_document_rule[of empty_disk SUBSCRIBERS_FILE "JInt 0" "modify_subscribers (JInt 7)" "JList []"]
      default_document_rule[of empty_disk READ_RECEIPTS_FILE "JInt 0" "modify_subscribers (JInt 7)" "JDict []"]
      default_document_rule[of scalar_subscribers_disk SUBSCRIBERS_FILE "JInt 5" "modify_subscribers (JInt 7)" "JInt 5"]
      default_document_rule[of corrupt_subscribers_disk SUBSCRIBERS_FILE "JInt 0" "modify_subscribers (JInt 7)" "JInt 0"]
    by (simp add: e s c p m)
qed

text \<open>
  Claim C9 as stated fails: with the subscribers file holding the number 5, the
  callback is handed 5 and not the empty list; with the subscribers file unparsable,
  the cycle of \<^verbatim>\<open>add_subscriber\<close> fails after its read instead of starting from the
  empty list.
\<close>

theorem rmw_default_counterexample:
  "rmw_current scalar_subscribers_disk SUBSCRIBERS_FILE = Inr (JInt 5)
   \<and> path_default SUBSCRIBERS_FILE = JList []
   \<and> add_subscriber corrupt_subscribers_disk (JInt 7) =
       (False, corrupt_subscribers_disk\<lparr>trace := [Read SUBSCRIBERS_FILE]\<rparr>)"
proof -
  have a: "rmw_current scalar_subscribers_disk SUBSCRIBERS_FILE = Inr (JInt 5)"
    by (simp add: scalar_subscribers_disk_def rmw_current_def)
  have b: "path_default SUBSCRIBERS_FILE = JList []"
    by (rule subscribers_path_default)
  have "rmw_current corrupt_subscribers_disk SUBSCRIBERS_FILE = Inl JSONDecodeError"
    by (simp add: corrupt_subscribers_disk_def rmw_current_def)
  then have c: "add_subscriber corrupt_subscribers_disk (JInt 7) =
       (False, corrupt_subscribers_disk\<lparr>trace := trace corrupt_subscribers_disk @ [Read SUBSCRIBERS_FILE]\<rparr>)"
    by (simp add: add_subscriber_def atomic_read_modify_write_def)
  have t: "trace corrupt_subscribers_disk = []" by (simp add: corrupt_subscribers_disk_def)
  show ?thesis using a b c by (simp add: t)
qed

subsection \<open>Subscribers\<close>

lemma modify_subscribers_container: "is_container (modify_subscribers u c)"
  by (simp add: modify_subscribers_def Let_def)

lemma add_subscriber_ok:
  assumes "valid_id u" "\<not> unwritable d SUBSCRIBERS_FILE" "rmw_current d SUBSCRIBERS_FILE = Inr c"
  shows "add_subscriber d u =
           (True, d\<lparr>files := (files d)(SUBSCRIBERS_FILE := Holds (modify_subscribers u c)),
                    trace := trace d @ [Read SUBSCRIBERS_FILE, Write SUBSCRIBERS_FILE]\<rparr>)"
  using assms by (simp add: add_subscriber_def rmw_write_ok modify_subscribers_container)

lemma modify_subscribers_list:
  "valid_id u \<Longrightarrow> occurrences u xs \<le> 1 \<Longrightarrow>
   \<exists>ys. modify_subscribers u (JList xs) = JList ys \<and> occurrences u ys = 1"
proof (cases "py_in u xs")
  case True
  assume "occurrences u xs \<le> 1"
  moreover from True have "occurrences u xs \<noteq> 0" by (simp add: occurrences_zero)
  ultimately have "occurrences u xs = 1" by simp
  with True show ?thesis by (simp add: modify_subscribers_def)
next
  case False
  assume "valid_id u"
  with False show ?thesis
    by (simp add: modify_subscribers_def occurrences_snoc) (simp add: occurrences_zero[symmetric])
qed

lemma add_first:
  assumes "valid_id u" "\<not> unwritable d SUBSCRIBERS_FILE"
    and "files d SUBSCRIBERS_FILE = Missing \<or>
         (\<exists>xs. files d SUBSCRIBERS_FILE = Holds (JList xs) \<and> occurrences u xs \<le> 1)"
  shows "once_stored u (snd (add_subscriber d u))"
proof -
  from assms(3) obtain xs where c: "rmw_current d SUBSCRIBERS_FILE = Inr (JList xs)"
    and o: "occurrences u xs \<le> 1"
    by (auto simp: rmw_current_def subscribers_path_default occurrences_def)
  from modify_subscribers_list[OF assms(1) o] obtain ys
    where "modify_subscribers u (JList xs) = JList ys" "occurrences u ys = 1" by blast
  then show ?thesis
    by (simp add: add_subscriber_ok[OF assms(1,2) c] once_stored_def assms(2))
qed

lemma add_keeps_once:
  assumes "valid_id u" "once_stored u d"
  shows "once_stored u (snd (add_subscriber d u))"
  using assms add_first[of u d] by (auto simp: once_stored_def)

lemma add_times_keeps_once:
  "valid_id u \<Longrightarrow> once_stored u d \<Longrightarrow> once_stored u (add_times n u d)"
  by (induction n arbitrary: d) (simp_all add: add_keeps_once)

lemma add_times_once:
  assumes "valid_id u" "\<not> unwritable d SUBSCRIBERS_FILE"
    and "files d SUBSCRIBERS_FILE = Missing \<or>
         (\<exists>xs. files d SUBSCRIBERS_FILE = Holds (JList xs) \<and> occurrences u xs \<le> 1)"
    and "0 < n"
  shows "once_stored u (add_times n u d)"
proof -
  from assms(4) obtain m where "n = Suc m" by (cases n) auto
  then show ?thesis
    using add_times_keeps_once[OF assms(1) add_first[OF assms(1,2,3)]] by simp
qed

lemma add_present_noop:
  assumes "valid_id u" "\<not> unwritable d SUBSCRIBERS_FILE"
    "files d SUBSCRIBERS_FILE = Holds (JList xs)" "py_in u xs"
  shows "fst (add_subscriber d u) = True \<and> files (snd (add_subscriber d u)) = files d"
proof -
  have c: "rmw_current d SUBSCRIBERS_FILE = Inr (JList xs)"
    using assms(3) by (simp add: rmw_current_def)
  have m: "modify_subscribers u (JList xs) = JList xs"
    using assms(4) by (simp add: modify_subscribers_def)
  show ?thesis
    using assms(3) by (simp add: add_subscriber_ok[OF assms(1,2) c] m fun_upd_idem)
qed

text \<open>
  Claim C5. Let the subscribers file accept writes and be absent or hold a list in
  which the valid identifier \<open>u\<close> occurs at most once (as it does in a list without
  duplicates). After any positive number of calls \<^verbatim>\<open>add_subscriber(u)\<close> the file holds a
  list in which \<open>u\<close> occurs exactly once. A call with an identifier that is no positive
  integer returns failure and leaves the disk, trace included, as it was. A call with
  an identifier already in the stored list reports success and leaves every file's
  content as it was.
\<close>

theorem add_subscriber_exactly_once:
  "(valid_id u \<and> \<not> unwritable d SUBSCRIBERS_FILE \<and>
      (files d SUBSCRIBERS_FILE = Missing \<or>
       (\<exists>xs. files d SUBSCRIBERS_FILE = Holds (JList xs) \<and> occurrences u xs \<le> 1)) \<and> 0 < n
     \<longrightarrow> (\<exists>ys. files (add_times n u d) SUBSCRIBERS_FILE = Holds (JList ys) \<and> occurrences u ys = 1))
   \<and> (\<not> valid_id v \<longrightarrow> add_subscriber d v = (False, d))
   \<and> (valid_id u \<and> \<not> unwritable d SUBSCRIBERS_FILE \<and>
        files d SUBSCRIBERS_FILE = Holds (JList xs) \<and> py_in u xs
     \<longrightarrow> fst (add_subscriber d u) = True \<and> files (snd (add_subscriber d u)) = files d)"
proof (intro conjI impI)
  assume "valid_id u \<and> \<not> unwritable d SUBSCRIBERS_FILE \<and>
      (files d SUBSCRIBERS_FILE = Missing \<or>
       (\<exists>xs. files d SUBSCRIBERS_FILE = Holds (JList xs) \<and> occurrences u xs \<le> 1)) \<and> 0 < n"
  then have "once_stored u (add_times n u d)" by (simp add: add_times_once)
  then show "\<exists>ys. files (add_times n u d) SUBSCRIBERS_FILE = Holds (JList ys) \<and> occurrences u ys = 1"
    by (simp add: once_stored_def)
next
  assume "\<not> valid_id v" then show "add_subscriber d v = (False, d)"
    by (simp add: add_subscriber_def)
next
  assume a: "valid_id u \<and> \<not> unwritable d SUBSCRIBERS_FILE \<and>
        files d SUBSCRIBERS_FILE = Holds (JList xs) \<and> py_in u xs"
  then show "fst (add_subscriber d u) = True" using add_present_noop[of u d xs] by simp
  from a show "files (snd (add_subscriber d u)) = files d" using add_present_noop[of u d xs] by simp
qed

theorem add_subscriber_exactly_once_witness:
  "valid_id (JInt 7) \<and> \<not> unwritable subscribed_disk SUBSCRIBERS_FILE
   \<and> files subscribed_disk SUBSCRIBERS_FILE = Holds (JList [JInt 3, JInt 7])
   \<and> occurrences (JInt 7) [JInt 3, JInt 7] \<le> 1 \<and> (0::nat) < 3
   \<and> py_in (JInt 7) [JInt 3, JInt 7] \<and> \<not> valid_id (JInt 0)
   \<and> (\<exists>ys. files (add_times 3 (JInt 7) subscribed_disk) SUBSCRIBERS_FILE = Holds (JList ys)
             \<and> occurrences (JInt 7) ys = 1)
   \<and> add_subscriber subscribed_disk (JInt 0) = (False, subscribed_disk)
   \<and> fst (add_subscriber subscribed_disk (JInt 7)) = True
   \<and> files (snd (add_subscriber subscribed_disk (JInt 7))) = files subscribed_disk"
proof -
  have f: "files subscribed_disk SUBSCRIBERS_FILE = Holds (JList [JInt 3, JInt 7])"
    "\<not> unwritable subscribed_disk SUBSCRIBERS_FILE"
    by (simp_all add: subscribed_disk_def)
  have o: "occurrences (JInt 7) [JInt 3, JInt 7] = 1" "py_in (JInt 7) [JInt 3, JInt 7]"
    by (simp_all add: occurrences_def py_in_def num_eq_def)
  show ?thesis
    using add_subscriber_exactly_once[of "JInt 7" subscribed_disk 3 "JInt 0" "[JInt 3, JInt 7]"]
    by (simp add: f o)
qed

subsection \<open>Read receipts\<close>

lemma modify_callback_records:
  assumes "valid_id u"
  shows "\<exists>c us. modify_callback a u cur = JDict c \<and> map_of c a = Some (JList us) \<and> py_in u us"
  using assms
  by (auto simp: modify_callback_def modify_receipts_def Let_def receipt_list_def
        update_conv' py_in_append py_in_single split: option.splits json.splits)

lemma mark_as_read_outcome:
  "fst (mark_as_read d a u) = Inr (True, True) \<or> fst (mark_as_read d a u) = Inr (False, False)"
proof (cases "a = [] \<or> \<not> valid_id u")
  case True
  then show ?thesis by (auto simp: mark_as_read_def)
next
  case False
  then have v: "valid_id u" and a: "a \<noteq> []" by auto
  from modify_callback_records[OF v] have
    r: "\<And>cur. \<exists>c us. modify_callback a u cur = JDict c \<and> map_of c a = Some (JList us) \<and> py_in u us"
    by blast
  show ?thesis
  proof (cases "rmw_current d READ_RECEIPTS_FILE")
    case (Inl e)
    then show ?thesis using v a
      by (simp add: mark_as_read_def atomic_read_modify_write_def Let_def)
  next
    case (Inr cur)
    from r[of cur] obtain c us where
      m: "modify_callback a u cur = JDict c" "map_of c a = Some (JList us)" "py_in u us" by blast
    show ?thesis using v a Inr m
      by (simp add: mark_as_read_def atomic_read_modify_write_def Let_def write_file_sync_def)
  qed
qed

text \<open>
  Claim C1 says that the first \<^verbatim>\<open>mark_as_read(a, u)\<close> returns \<^verbatim>\<open>(True, False)\<close>. On a disk
  without a receipts file the first call for announcement \<^verbatim>\<open>ab12cd34\<close> and user 7
  returns \<^verbatim>\<open>(True, True)\<close>: the flag is recomputed from the document after the user has
  been appended. The second call returns \<^verbatim>\<open>(True, True)\<close> as well, and the count is 1
  after both.
\<close>

theorem mark_as_read_first_call_duplicate_flag:
  "fst (mark_as_read empty_disk ''ab12cd34'' (JInt 7)) = Inr (True, True)
   \<and> fst (mark_as_read (snd (mark_as_read empty_disk ''ab12cd34'' (JInt 7))) ''ab12cd34'' (JInt 7))
        = Inr (True, True)
   \<and> fst (get_read_count
            (snd (mark_as_read (snd (mark_as_read empty_disk ''ab12cd34'' (JInt 7))) ''ab12cd34'' (JInt 7)))
            ''ab12cd34'') = Inr 1"
  by (simp add: empty_disk_def mark_as_read_def atomic_read_modify_write_def rmw_current_def
        path_default_def READ_RECEIPTS_FILE_def modify_callback_def modify_receipts_def
        receipt_list_def py_in_def write_file_sync_def num_eq_def Let_def get_read_count_def
        load_json_def read_file_sync_def dict_get_def)

lemma get_read_count_is_length:
  assumes "a \<noteq> []"
    and "fst (load_json d READ_RECEIPTS_FILE (JDict [])) = JDict kvs"
    and "dict_get kvs a (JList []) = JList us"
  shows "fst (get_read_count d a) = Inr (int (length us))"
    and "fst (get_read_users d a) = Inr (filter valid_id us)"
  using assms load_json_pair[of d READ_RECEIPTS_FILE "JDict []"]
  by (simp_all add: get_read_count_def get_read_users_def)

text \<open>
  Claim C3 says that \<^verbatim>\<open>get_read_count\<close> equals the length of \<^verbatim>\<open>get_read_users\<close>. With the
  receipt list \<^verbatim>\<open>[1, "x", -3]\<close> stored for an announcement, \<^verbatim>\<open>get_read_count\<close> returns 3
  and \<^verbatim>\<open>get_read_users\<close> returns the one valid identifier.
\<close>

theorem get_read_count_counts_invalid_entries:
  "fst (get_read_count mixed_receipts_disk ''ab12cd34'') = Inr 3 \<and>
   fst (get_read_users mixed_receipts_disk ''ab12cd34'') = Inr [JInt 1]"
  by (simp add: get_read_count_def get_read_users_def mixed_receipts_disk_def load_json_def dict_get_def
        read_file_sync_def READ_RECEIPTS_FILE_def)

subsection \<open>Announcements\<close>

lemma kept_keys: "set (map fst (kept_records kvs)) \<subseteq> set (map fst kvs)"
  by (force simp: kept_records_def split: json.splits if_splits)

lemma kept_Cons:
  "kept_records ((k, v) # kvs) =
     (case v of JDict flds \<Rightarrow> if dict_get flds ''id'' JNull = JStr k then [(k, flds)] else []
      | _ \<Rightarrow> []) @ kept_records kvs"
  by (cases v) (simp_all add: kept_records_def)

lemma distinct_kept: "distinct (map fst kvs) \<Longrightarrow> distinct (map fst (kept_records kvs))"
proof (induction kvs)
  case Nil
  then show ?case by (simp add: kept_records_def)
next
  case (Cons kv kvs)
  obtain k v where kv: "kv = (k, v)" by (cases kv)
  from Cons.prems kv have "k \<notin> set (map fst (kept_records kvs))"
    using kept_keys[of kvs] by auto
  with Cons show ?case
    by (auto simp: kv kept_Cons split: json.splits)
qed

lemma valid_announcements_kept:
  "distinct (map fst acc @ map fst kvs) \<Longrightarrow>
   valid_announcements kvs acc = acc @ kept_records kvs"
proof (induction kvs arbitrary: acc)
  case Nil
  then show ?case by (simp add: kept_records_def)
next
  case (Cons kv kvs)
  obtain k v where kv: "kv = (k, v)" by (cases kv)
  from Cons.prems kv have fresh: "k \<notin> fst ` set acc" and
    d1: "distinct (map fst acc @ map fst kvs)" and
    d2: "distinct (map fst (acc @ [(k, w)]) @ map fst kvs)" for w
    by auto
  show ?case
  proof (cases "\<exists>flds. v = JDict flds \<and> dict_get flds ''id'' JNull = JStr k")
    case True
    then obtain flds where v: "v = JDict flds" "dict_get flds ''id'' JNull = JStr k" by blast
    then show ?thesis
      using Cons.IH[OF d2[of flds]] by (simp add: kv kept_Cons py_eq_str update_fresh[OF fresh])
  next
    case False
    then show ?thesis
      using Cons.IH[OF d1] by (auto simp: kv kept_Cons py_eq_str split: json.splits)
  qed
qed

lemma dict_of_items_acc:
  "distinct (map fst acc @ map fst xs) \<Longrightarrow>
   foldl (\<lambda>acc kv. AList.update (fst kv) (snd kv) acc) acc xs = acc @ xs"
proof (induction xs arbitrary: acc)
  case Nil
  then show ?case by simp
next
  case (Cons x xs)
  from Cons.prems have fresh: "fst x \<notin> fst ` set acc" and
    d: "distinct (map fst (acc @ [x]) @ map fst xs)" by auto
  show ?case using Cons.IH[OF d] by (simp add: update_fresh[OF fresh])
qed

lemma dict_of_items_distinct: "distinct (map fst xs) \<Longrightarrow> dict_of_items xs = xs"
  using dict_of_items_acc[of "[]" xs] by (simp add: dict_of_items_def)

lemma insert_item_insort:
  assumes "\<exists>s. timestamp_key x = JStr s" "list_all (\<lambda>y. \<exists>s. timestamp_key y = JStr s) ys"
  shows "insert_item x ys = Inr (insort_key timestamp_str x ys)"
  using assms
proof (induction ys)
  case Nil
  then show ?case by simp
next
  case (Cons y ys)
  then obtain s t where "timestamp_key x = JStr s" "timestamp_key y = JStr t" by auto
  with Cons show ?case by (auto simp: timestamp_str_def not_less split: bool.splits)
qed

lemma sort_items_sort_key:
  "list_all (\<lambda>y. \<exists>s. timestamp_key y = JStr s) xs \<Longrightarrow>
   sort_items xs = Inr (sort_key timestamp_str xs)"
proof (induction xs)
  case Nil
  then show ?case by simp
next
  case (Cons x xs)
  then have "list_all (\<lambda>y. \<exists>s. timestamp_key y = JStr s) (sort_key timestamp_str xs)"
    by (simp add: list_all_iff)
  with Cons show ?case by (simp add: insert_item_insort)
qed

lemma sorted_reverse_strings:
  "list_all (\<lambda>y. \<exists>s. timestamp_key y = JStr s) xs \<Longrightarrow>
   sorted_reverse xs = Inr (rev (sort_key timestamp_str (rev xs)))"
  by (simp add: sorted_reverse_def sort_items_sort_key list_all_iff)

lemma rev_sort_desc:
  "sorted_wrt (\<lambda>a b. f b \<le> f a) (rev (sort_key f xs))"
proof -
  have "sorted (map f (sort_key f xs))" by simp
  then have "sorted_wrt (\<lambda>a b. f a \<le> f b) (sort_key f xs)"
    by (simp add: sorted_map)
  then show ?thesis by (simp add: sorted_wrt_rev)
qed

lemma rev_sort_stable:
  "filter (\<lambda>x. f x = t) (rev (sort_key f (rev xs))) = filter (\<lambda>x. f x = t) xs"
  by (simp add: rev_filter[symmetric] sort_key_stable)

lemma kept_records_set:
  "set (kept_records kvs) =
     {(k, flds). (k, JDict flds) \<in> set kvs \<and> dict_get flds ''id'' JNull = JStr k}"
  by (induction kvs) (auto simp: kept_Cons kept_records_def split: json.splits if_splits)

text \<open>
  Claim C6, as the code has it. Let the announcements document be a mapping (with
  pairwise different keys, as every parsed mapping has) in which the timestamp of each
  record that is a mapping carrying its own key as \<^verbatim>\<open>id\<close> is a string or absent. Then
  \<^verbatim>\<open>get_all_announcements\<close> returns exactly those records, each once: the records that
  are no mapping or whose \<^verbatim>\<open>id\<close> differs from their key are left out. The result is
  ordered by timestamp, latest first, and records of equal timestamp keep the order
  they have in the document.
\<close>

theorem get_all_announcements_sorted:
  assumes "fst (load_json d ANNOUNCEMENTS_FILE (JDict [])) = JDict kvs"
    and "distinct (map fst kvs)"
    and "list_all (\<lambda>x. \<exists>s. timestamp_key x = JStr s) (kept_records kvs)"
  shows "\<exists>res. fst (get_all_announcements d) = Inr res
     \<and> mset res = mset (kept_records kvs)
     \<and> set (kept_records kvs) =
         {(k, flds). (k, JDict flds) \<in> set kvs \<and> dict_get flds ''id'' JNull = JStr k}
     \<and> sorted_wrt (\<lambda>a b. timestamp_str b \<le> timestamp_str a) res
     \<and> (\<forall>t. filter (\<lambda>x. timestamp_str x = t) res =
              filter (\<lambda>x. timestamp_str x = t) (kept_records kvs))"
proof -
  let ?kept = "kept_records kvs"
  let ?res = "rev (sort_key timestamp_str (rev ?kept))"
  have v: "valid_announcements kvs [] = ?kept"
    using valid_announcements_kept[of "[]" kvs] assms(2) by simp
  have m: "mset ?res = mset ?kept" by simp
  have "distinct (map fst ?res)"
    using distinct_kept[OF assms(2)] m
    by (metis distinct_map mset_eq_setD distinct_rev distinct_sort inj_on_rev set_rev set_sort
          mset_eq_imp_distinct_iff)
  then have dict: "dict_of_items ?res = ?res" by (rule dict_of_items_distinct)
  have "fst (get_all_announcements d) = Inr ?res"
    using load_json_pair[of d ANNOUNCEMENTS_FILE "JDict []"] assms(1)
    by (simp add: get_all_announcements_def v sorted_reverse_strings[OF assms(3)] dict)
  then show ?thesis
    using m kept_records_set[of kvs] rev_sort_desc[of timestamp_str "rev ?kept"]
      rev_sort_stable[of timestamp_str _ ?kept] by blast
qed

theorem get_all_announcements_sorted_witness:
  "fst (load_json listing_disk ANNOUNCEMENTS_FILE (JDict [])) = JDict listing_doc
   \<and> distinct (map fst listing_doc)
   \<and> list_all (\<lambda>x. \<exists>s. timestamp_key x = JStr s) (kept_records listing_doc)
   \<and> (\<exists>res. fst (get_all_announcements listing_disk) = Inr res
         \<and> mset res = mset (kept_records listing_doc)
         \<and> sorted_wrt (\<lambda>a b. timestamp_str b \<le> timestamp_str a) res
         \<and> (\<forall>t. filter (\<lambda>x. timestamp_str x = t) res =
                  filter (\<lambda>x. timestamp_str x = t) (kept_records listing_doc)))
   \<and> map fst (kept_records listing_doc) = [''aaaa0001'', ''cccc0003'', ''dddd0004'']"
proof -
  have "files listing_disk ANNOUNCEMENTS_FILE = Holds (JDict listing_doc)"
    by (simp add: listing_disk_def)
  then have a: "fst (load_json listing_disk ANNOUNCEMENTS_FILE (JDict [])) = JDict listing_doc"
    by (simp add: load_json_holds)
  have b: "distinct (map fst listing_doc)" by (simp add: listing_doc_def)
  have k: "kept_records listing_doc =
     [(''aaaa0001'', [(''id'', JStr ''aaaa0001''), (''timestamp'', JStr ''2026-01-03T00:00:00'')]),
      (''cccc0003'', [(''id'', JStr ''cccc0003''), (''timestamp'', JStr ''2026-01-05T00:00:00'')]),
      (''dddd0004'', [(''id'', JStr ''dddd0004''), (''timestamp'', JStr ''2026-01-03T00:00:00'')])]"
    by (simp add: kept_records_def listing_doc_def dict_get_def)
  have c: "list_all (\<lambda>x. \<exists>s. timestamp_key x = JStr s) (kept_records listing_doc)"
    by (simp add: k timestamp_key_def dict_get_def)
  have e: "map fst (kept_records listing_doc) = [''aaaa0001'', ''cccc0003'', ''dddd0004'']"
    by (simp add: k)
  show ?thesis
    using get_all_announcements_sorted[OF a b c] a b c e by blast
qed

text \<open>
  Claim C6 as stated fails: with two records that carry their own key, one with the
  timestamp \<^verbatim>\<open>null\<close> and one with a string, the sort compares the two timestamps and
  \<^verbatim>\<open>get_all_announcements\<close> raises \<^verbatim>\<open>TypeError\<close>; and a document stored as a list has no
  \<^verbatim>\<open>items\<close>, so the call raises \<^verbatim>\<open>AttributeError\<close>. Neither call returns a listing.
\<close>

theorem get_all_announcements_raises_counterexample:
  "fst (get_all_announcements null_timestamp_disk) = Inl TypeError
   \<and> fst (get_all_announcements list_announcements_disk) = Inl AttributeError"
proof -
  have a: "fst (get_all_announcements null_timestamp_disk) = Inl TypeError"
    by (simp add: get_all_announcements_def null_timestamp_disk_def load_json_def
        read_file_sync_def ANNOUNCEMENTS_FILE_def dict_get_def sorted_reverse_def timestamp_key_def)
  have b: "fst (get_all_announcements list_announcements_disk) = Inl AttributeError"
    by (simp add: get_all_announcements_def list_announcements_disk_def load_json_def
        read_file_sync_def ANNOUNCEMENTS_FILE_def)
  show ?thesis using a b by simp
qed

lemma get_all_announcements_order_example:
  "fst (get_all_announcements listing_disk) = Inr
   [(''cccc0003'', [(''id'', JStr ''cccc0003''), (''timestamp'', JStr ''2026-01-05T00:00:00'')]),
    (''aaaa0001'', [(''id'', JStr ''aaaa0001''), (''timestamp'', JStr ''2026-01-03T00:00:00'')]),
    (''dddd0004'', [(''id'', JStr ''dddd0004''), (''timestamp'', JStr ''2026-01-03T00:00:00'')])]"
  by (simp add: get_all_announcements_def listing_disk_def listing_doc_def load_json_def
        read_file_sync_def ANNOUNCEMENTS_FILE_def dict_get_def sorted_reverse_def
        timestamp_key_def dict_of_items_def)

text \<open>
  Claim C10. \<^verbatim>\<open>get_announcements_count\<close> returns the number of top-level entries of the
  document as loaded, be it a mapping or a list, and \<^verbatim>\<open>announcement_exists\<close> on a mapping
  tests whether the identifier is one of its keys; neither looks at the records. On
  the example document of five entries the count is 5 while \<^verbatim>\<open>get_all_announcements\<close>
  returns three records, and \<^verbatim>\<open>announcement_exists\<close> is true for \<^verbatim>\<open>bbbb0002\<close>, a record
  that \<^verbatim>\<open>get_all_announcements\<close> leaves out.
\<close>

theorem count_and_exists_unfiltered:
  "(fst (load_json d ANNOUNCEMENTS_FILE (JDict [])) = JDict kvs \<longrightarrow>
      fst (get_announcements_count d) = Inr (int (length kvs))
      \<and> fst (announcement_exists d a) = Inr (a \<in> fst ` set kvs))
   \<and> (fst (load_json d ANNOUNCEMENTS_FILE (JDict [])) = JList xs \<longrightarrow>
        fst (get_announcements_count d) = Inr (int (length xs)))
   \<and> fst (get_announcements_count listing_disk) = Inr 5
   \<and> (\<exists>res. fst (get_all_announcements listing_disk) = Inr res \<and> length res = 3
              \<and> ''bbbb0002'' \<notin> fst ` set res)
   \<and> fst (announcement_exists listing_disk ''bbbb0002'') = Inr True"
proof -
  have g': "fst (get_announcements_count d) = Inr (int (length xs))"
    if "fst (load_json d ANNOUNCEMENTS_FILE (JDict [])) = JList xs"
    using that load_json_pair[of d ANNOUNCEMENTS_FILE "JDict []"]
    by (simp add: get_announcements_count_def)
  have g: "fst (get_announcements_count d) = Inr (int (length kvs))
      \<and> fst (announcement_exists d a) = Inr (a \<in> fst ` set kvs)"
    if "fst (load_json d ANNOUNCEMENTS_FILE (JDict [])) = JDict kvs"
    using that load_json_pair[of d ANNOUNCEMENTS_FILE "JDict []"]
    by (simp add: get_announcements_count_def announcement_exists_def map_of_eq_None_iff)
  have "files listing_disk ANNOUNCEMENTS_FILE = Holds (JDict listing_doc)"
    by (simp add: listing_disk_def)
  then have l: "fst (load_json listing_disk ANNOUNCEMENTS_FILE (JDict [])) = JDict listing_doc"
    by (simp add: load_json_holds)
  have p: "load_json listing_disk ANNOUNCEMENTS_FILE (JDict []) =
             (JDict listing_doc, listing_disk\<lparr>trace := trace listing_disk @ [Read ANNOUNCEMENTS_FILE]\<rparr>)"
    using load_json_pair[of listing_disk ANNOUNCEMENTS_FILE "JDict []"] l by simp
  have c: "fst (get_announcements_count listing_disk) = Inr 5"
    by (simp add: get_announcements_count_def p) (simp add: listing_doc_def)
  have e: "fst (announcement_exists listing_disk ''bbbb0002'') = Inr True"
    by (simp add: announcement_exists_def p) (simp add: listing_doc_def)
  have r: "\<exists>res. fst (get_all_announcements listing_disk) = Inr res \<and> length res = 3
              \<and> ''bbbb0002'' \<notin> fst ` set res"
    by (simp add: get_all_announcements_order_example)
  show ?thesis using g g' c e r by blast
qed

theorem count_and_exists_unfiltered_witness:
  "fst (load_json listing_disk ANNOUNCEMENTS_FILE (JDict [])) = JDict listing_doc
   \<and> fst (get_announcements_count listing_disk) = Inr (int (length listing_doc))
   \<and> length listing_doc = 5
   \<and> fst (announcement_exists listing_disk ''eeee0005'') = Inr True
   \<and> fst (announcement_exists listing_disk ''ffff0006'') = Inr False"
proof -
  have "files listing_disk ANNOUNCEMENTS_FILE = Holds (JDict listing_doc)"
    by (simp add: listing_disk_def)
  then have l: "fst (load_json listing_disk ANNOUNCEMENTS_FILE (JDict [])) = JDict listing_doc"
    by (simp add: load_json_holds)
  have k: "length listing_doc = 5" "''eeee0005'' \<in> fst ` set listing_doc"
    "''ffff0006'' \<notin> fst ` set listing_doc"
    by (simp_all add: listing_doc_def)
  show ?thesis
    using count_and_exists_unfiltered[of listing_disk listing_doc "''eeee0005''" "[]"]
      count_and_exists_unfiltered[of listing_disk listing_doc "''ffff0006''" "[]"] l k
    by simp
qed

text \<open>
  Claim C2, as the code has it. An identifier that is no positive integer makes
  \<^verbatim>\<open>add_subscriber\<close> return failure, and it or an empty announcement id makes
  \<^verbatim>\<open>mark_as_read\<close> return \<^verbatim>\<open>(False, False)\<close>; an empty announcement id or a \<^verbatim>\<open>data\<close> that
  is no mapping makes \<^verbatim>\<open>create_announcement\<close> return failure; all three leave the disk
  untouched, with no access to storage. A mapping without \<^verbatim>\<open>sender_id\<close> or \<^verbatim>\<open>message_id\<close>
  makes \<^verbatim>\<open>create_announcement\<close> return failure after one read of the announcements
  file: no file is written and no content changes.
\<close>

theorem invalid_input_rejected:
  "(\<not> valid_id u \<longrightarrow> add_subscriber d u = (False, d))
   \<and> (a = [] \<or> \<not> valid_id u \<longrightarrow> mark_as_read d a u = (Inr (False, False), d))
   \<and> (a = [] \<or> \<not> (\<exists>flds. data = JDict flds) \<longrightarrow>
        create_announcement d now_iso a data = (Inr False, d))
   \<and> (a \<noteq> [] \<and> (map_of flds ''sender_id'' = None \<or> map_of flds ''message_id'' = None) \<longrightarrow>
        create_announcement d now_iso a (JDict flds) =
          (Inr False, d\<lparr>trace := trace d @ [Read ANNOUNCEMENTS_FILE]\<rparr>))"
proof -
  have s: "add_subscriber d u = (False, d)" if "\<not> valid_id u"
    using that by (simp add: add_subscriber_def)
  have m: "mark_as_read d a u = (Inr (False, False), d)" if "a = [] \<or> \<not> valid_id u"
    using that by (auto simp: mark_as_read_def)
  have c1: "create_announcement d now_iso a data = (Inr False, d)"
    if "a = [] \<or> \<not> (\<exists>flds. data = JDict flds)"
    using that by (cases data) (auto simp: create_announcement_def)
  have c2: "create_announcement d now_iso a (JDict flds) =
          (Inr False, d\<lparr>trace := trace d @ [Read ANNOUNCEMENTS_FILE]\<rparr>)"
    if "a \<noteq> [] \<and> (map_of flds ''sender_id'' = None \<or> map_of flds ''message_id'' = None)"
    using that load_json_pair[of d ANNOUNCEMENTS_FILE "JDict []"]
    by (auto simp: create_announcement_def split: prod.splits)
  show ?thesis using s m c1 c2 by blast
qed

theorem invalid_input_rejected_witness:
  "\<not> valid_id (JInt (- 4)) \<and> \<not> valid_id (JStr ''7'')
   \<and> add_subscriber empty_disk (JInt (- 4)) = (False, empty_disk)
   \<and> mark_as_read empty_disk ''ab12cd34'' (JStr ''7'') = (Inr (False, False), empty_disk)
   \<and> mark_as_read empty_disk [] (JInt 7) = (Inr (False, False), empty_disk)
   \<and> \<not> (\<exists>flds. JList [] = JDict flds)
   \<and> create_announcement empty_disk ''2026-01-12T00:00:00'' ''ab12cd34'' (JList []) = (Inr False, empty_disk)
   \<and> ''ab12cd34'' \<noteq> [] \<and> map_of [(''sender_id'', JInt 1), (''content'', JStr ''hello'')] ''message_id'' = None
   \<and> create_announcement empty_disk ''2026-01-12T00:00:00'' ''ab12cd34''
         (JDict [(''sender_id'', JInt 1), (''content'', JStr ''hello'')]) =
       (Inr False, empty_disk\<lparr>trace := trace empty_disk @ [Read ANNOUNCEMENTS_FILE]\<rparr>)"
  using invalid_input_rejected[of "JInt (- 4)" empty_disk "''ab12cd34''" "JList []" "''2026-01-12T00:00:00''"
          "[(''sender_id'', JInt 1), (''content'', JStr ''hello'')]"]
    invalid_input_rejected[of "JStr ''7''" empty_disk "''ab12cd34''" "JList []" "''2026-01-12T00:00:00''"
          "[(''sender_id'', JInt 1), (''content'', JStr ''hello'')]"]
    invalid_input_rejected[of "JInt 7" empty_disk "[]" "JList []" "''2026-01-12T00:00:00''"
          "[(''sender_id'', JInt 1), (''content'', JStr ''hello'')]"]
  by simp

text \<open>
  Claim C2 as stated fails: \<^verbatim>\<open>create_announcement\<close> given a mapping without \<^verbatim>\<open>message_id\<close>
  returns failure, but it has read the announcements file by then.
\<close>

theorem create_reads_before_rejecting:
  "fst (create_announcement empty_disk ''2026-01-12T00:00:00'' ''ab12cd34''
          (JDict [(''sender_id'', JInt 1), (''content'', JStr ''hello'')])) = Inr False
   \<and> trace empty_disk = []
   \<and> trace (snd (create_announcement empty_disk ''2026-01-12T00:00:00'' ''ab12cd34''
          (JDict [(''sender_id'', JInt 1), (''content'', JStr ''hello'')]))) = [Read ANNOUNCEMENTS_FILE]"
proof -
  have t: "trace empty_disk = []" by (simp add: empty_disk_def)
  have "create_announcement empty_disk ''2026-01-12T00:00:00'' ''ab12cd34''
          (JDict [(''sender_id'', JInt 1), (''content'', JStr ''hello'')]) =
        (Inr False, empty_disk\<lparr>trace := trace empty_disk @ [Read ANNOUNCEMENTS_FILE]\<rparr>)"
    using load_json_pair[of empty_disk ANNOUNCEMENTS_FILE "JDict []"]
    by (auto simp: create_announcement_def split: prod.splits)
  then show ?thesis by (simp add: t)
qed

subsection \<open>Retention sweep\<close>

lemma to_delete_filter:
  "list_all (\<lambda>kv. \<exists>flds. snd kv = JDict flds) kvs \<Longrightarrow>
   announcements_to_delete f c kvs = Inr (map fst (filter (marked f c) kvs))"
proof (induction kvs)
  case Nil
  then show ?case by simp
next
  case (Cons kv kvs)
  obtain k v where kv: "kv = (k, v)" by (cases kv)
  with Cons.prems obtain flds where v: "v = JDict flds" by auto
  from Cons show ?case by (simp add: kv v marked_def)
qed

lemma to_delete_non_mapping:
  "list_ex (\<lambda>kv. \<not> (\<exists>flds. snd kv = JDict flds)) kvs \<Longrightarrow>
   announcements_to_delete f c kvs = Inl AttributeError"
proof (induction kvs)
  case Nil
  then show ?case by simp
next
  case (Cons kv kvs)
  obtain k v where kv: "kv = (k, v)" by (cases kv)
  show ?case
  proof (cases "\<exists>flds. v = JDict flds")
    case True
    then obtain flds where v: "v = JDict flds" by blast
    with Cons kv show ?thesis by simp
  next
    case False
    then show ?thesis by (cases v) (simp_all add: kv)
  qed
qed

lemma filter_notin_Cons:
  "filter (\<lambda>kv. fst kv \<notin> set ids) (filter (\<lambda>kv. fst kv \<noteq> k) al) =
   filter (\<lambda>kv. fst kv \<notin> set (k # ids)) al"
  by (induction al) auto

lemma filter_notin_Cons_absent:
  "map_of al k = None \<Longrightarrow>
   filter (\<lambda>kv. fst kv \<notin> set ids) al = filter (\<lambda>kv. fst kv \<notin> set (k # ids)) al"
  using filter_notin_Cons[of ids k al] by (simp add: map_of_None_filter)

lemma keys_after_delete:
  "set ids \<subseteq> fst ` set al \<Longrightarrow> k \<notin> set ids \<Longrightarrow>
   set ids \<subseteq> fst ` set (filter (\<lambda>kv. fst kv \<noteq> k) al)"
  by force

lemma delete_all_filter:
  "distinct ids \<Longrightarrow> set ids \<subseteq> fst ` set anns \<Longrightarrow>
   delete_announcements ids anns (JDict rc) n =
     Inr (filter (\<lambda>kv. fst kv \<notin> set ids) anns,
          JDict (filter (\<lambda>kv. fst kv \<notin> set ids) rc),
          n + int (length ids))"
proof (induction ids arbitrary: anns rc n)
  case Nil
  then show ?case by simp
next
  case (Cons k ids)
  from Cons.prems have present: "map_of anns k \<noteq> None"
    by (simp add: map_of_eq_None_iff)
  from Cons.prems have d: "distinct ids" and nin: "k \<notin> set ids" by auto
  from Cons.prems nin have sub: "set ids \<subseteq> fst ` set (filter (\<lambda>kv. fst kv \<noteq> k) anns)"
    by (intro keys_after_delete) auto
  note ih = Cons.IH[OF d sub]
  show ?case
  proof (cases "map_of rc k = None")
    case True
    have "delete_announcements (k # ids) anns (JDict rc) n =
          delete_announcements ids (filter (\<lambda>kv. fst kv \<noteq> k) anns) (JDict rc) (n + 1)"
      using present True by (simp add: Let_def delete_filter)
    also have "\<dots> = Inr (filter (\<lambda>kv. fst kv \<notin> set ids) (filter (\<lambda>kv. fst kv \<noteq> k) anns),
          JDict (filter (\<lambda>kv. fst kv \<notin> set ids) rc), n + 1 + int (length ids))"
      by (rule ih)
    finally show ?thesis
      by (simp only: filter_notin_Cons filter_notin_Cons_absent[OF True, of ids]) simp
  next
    case False
    have "delete_announcements (k # ids) anns (JDict rc) n =
          delete_announcements ids (filter (\<lambda>kv. fst kv \<noteq> k) anns)
            (JDict (filter (\<lambda>kv. fst kv \<noteq> k) rc)) (n + 1)"
      using present False by (simp add: Let_def delete_filter)
    also have "\<dots> = Inr (filter (\<lambda>kv. fst kv \<notin> set ids) (filter (\<lambda>kv. fst kv \<noteq> k) anns),
          JDict (filter (\<lambda>kv. fst kv \<notin> set ids) (filter (\<lambda>kv. fst kv \<noteq> k) rc)),
          n + 1 + int (length ids))"
      by (rule ih)
    finally show ?thesis
      by (simp only: filter_notin_Cons) simp
  qed
qed

lemma marked_keys:
  "set (map fst (filter (marked f c) kvs)) \<subseteq> fst ` set kvs"
  by auto

lemma distinct_marked_keys:
  "distinct (map fst kvs) \<Longrightarrow> distinct (map fst (filter (marked f c) kvs))"
  by (simp add: distinct_map_filter)

lemma filter_not_marked:
  "distinct (map fst kvs) \<Longrightarrow>
   filter (\<lambda>kv. fst kv \<notin> set (map fst (filter (marked f c) kvs))) kvs =
   filter (\<lambda>kv. \<not> marked f c kv) kvs"
proof (rule filter_cong[OF refl])
  fix kv assume d: "distinct (map fst kvs)" and m: "kv \<in> set kvs"
  show "(fst kv \<notin> set (map fst (filter (marked f c) kvs))) = (\<not> marked f c kv)"
  proof
    assume "fst kv \<notin> set (map fst (filter (marked f c) kvs))"
    with m show "\<not> marked f c kv" by force
  next
    assume n: "\<not> marked f c kv"
    show "fst kv \<notin> set (map fst (filter (marked f c) kvs))"
    proof
      assume "fst kv \<in> set (map fst (filter (marked f c) kvs))"
      then obtain kv' where kv': "kv' \<in> set kvs" "marked f c kv'" "fst kv' = fst kv" by auto
      with d m have "kv' = kv" by (metis eq_key_imp_eq_value prod.collapse)
      with kv' n show False by simp
    qed
  qed
qed

lemma marked_iff:
  "marked f c (k, JDict flds) =
     (\<not> (\<exists>s t. dict_get flds ''timestamp'' (JStr []) = JStr s \<and> f s = Some t \<and> c \<le> t))"
  by (auto simp: marked_def expired_def split: json.splits option.splits)

lemma cleanup_unfold:
  assumes "fst (load_json d ANNOUNCEMENTS_FILE (JDict [])) = JDict anns"
    and "fst (load_json d READ_RECEIPTS_FILE (JDict [])) = rc"
    and "list_all (\<lambda>kv. \<exists>flds. snd kv = JDict flds) anns"
    and "d2 = d\<lparr>trace := trace d @ [Read ANNOUNCEMENTS_FILE, Read READ_RECEIPTS_FILE]\<rparr>"
  shows "cleanup_old_announcements d now f =
     (if anns = [] then (0, d2)
      else case delete_announcements (map fst (filter (marked f (now - RETENTION)) anns)) anns rc 0 of
             Inl e \<Rightarrow> (0, d2)
           | Inr (announcements', receipts', deleted_count) \<Rightarrow>
               if deleted_count > 0
               then (deleted_count,
                     snd (save_json (snd (save_json d2 ANNOUNCEMENTS_FILE (JDict announcements')))
                            READ_RECEIPTS_FILE receipts'))
               else (deleted_count, d2))"
proof -
  let ?d1 = "d\<lparr>trace := trace d @ [Read ANNOUNCEMENTS_FILE]\<rparr>"
  have l1: "load_json d ANNOUNCEMENTS_FILE (JDict []) = (JDict anns, ?d1)"
    using load_json_pair[of d ANNOUNCEMENTS_FILE "JDict []"] assms(1) by simp
  have "fst (load_json ?d1 READ_RECEIPTS_FILE (JDict [])) = rc"
    using load_json_fst_files[of ?d1 READ_RECEIPTS_FILE d "JDict []"] assms(2) by simp
  then have l2: "load_json ?d1 READ_RECEIPTS_FILE (JDict []) = (rc, d2)"
    using load_json_pair[of ?d1 READ_RECEIPTS_FILE "JDict []"] assms(4) by simp
  show ?thesis
    by (simp add: cleanup_old_announcements_def l1 l2 to_delete_filter[OF assms(3)]
          split: sum.splits prod.splits)
qed

lemma cleanup_stops_on_non_mapping_record:
  assumes "fst (load_json d ANNOUNCEMENTS_FILE (JDict [])) = JDict anns"
    and "list_ex (\<lambda>kv. \<not> (\<exists>flds. snd kv = JDict flds)) anns"
  shows "cleanup_old_announcements d now f =
           (0, d\<lparr>trace := trace d @ [Read ANNOUNCEMENTS_FILE, Read READ_RECEIPTS_FILE]\<rparr>)"
proof -
  let ?d1 = "d\<lparr>trace := trace d @ [Read ANNOUNCEMENTS_FILE]\<rparr>"
  define rc where "rc = fst (load_json ?d1 READ_RECEIPTS_FILE (JDict []))"
  have l1: "load_json d ANNOUNCEMENTS_FILE (JDict []) = (JDict anns, ?d1)"
    using load_json_pair[of d ANNOUNCEMENTS_FILE "JDict []"] assms(1) by simp
  have l2: "load_json ?d1 READ_RECEIPTS_FILE (JDict []) =
              (rc, d\<lparr>trace := trace d @ [Read ANNOUNCEMENTS_FILE, Read READ_RECEIPTS_FILE]\<rparr>)"
    using load_json_pair[of ?d1 READ_RECEIPTS_FILE "JDict []"] by (simp add: rc_def)
  show ?thesis
    by (simp add: cleanup_old_announcements_def l1 l2 to_delete_non_mapping[OF assms(2)])
qed

lemma sample_marked:
  "marked sample_fromisoformat (sample_now - RETENTION) old_record"
  "\<not> marked sample_fromisoformat (sample_now - RETENTION) new_record"
  "marked sample_fromisoformat (sample_now - RETENTION) bad_record"
  by (simp_all add: marked_def expired_def dict_get_def old_record_def new_record_def
        bad_record_def sample_fromisoformat_def sample_now_def RETENTION_def DAY_def)

lemma sample_keys:
  "fst old_record = ''old00001''" "fst new_record = ''new00002''" "fst bad_record = ''bad00003''"
  "\<exists>flds. snd old_record = JDict flds" "\<exists>flds. snd new_record = JDict flds"
  "\<exists>flds. snd bad_record = JDict flds"
  by (simp_all add: old_record_def new_record_def bad_record_def)



lemma cleanup_deletes_expired_core:
  assumes "files d ANNOUNCEMENTS_FILE = Holds (JDict anns)"
    and "distinct (map fst anns)"
    and "list_all (\<lambda>kv. \<exists>flds. snd kv = JDict flds) anns"
    and "fst (load_json d READ_RECEIPTS_FILE (JDict [])) = JDict rc"
    and "\<not> unwritable d ANNOUNCEMENTS_FILE" and "\<not> unwritable d READ_RECEIPTS_FILE"
    and "d' = snd (cleanup_old_announcements d now f)"
    and "c = now - RETENTION"
  shows "fst (cleanup_old_announcements d now f) = int (length (filter (marked f c) anns))
       \<and> fst (load_json d' ANNOUNCEMENTS_FILE (JDict [])) = JDict (filter (\<lambda>kv. \<not> marked f c kv) anns)
       \<and> fst (load_json d' READ_RECEIPTS_FILE (JDict [])) =
           JDict (filter (\<lambda>kv. fst kv \<notin> fst ` set (filter (marked f c) anns)) rc)"
proof -
  let ?d2 = "d\<lparr>trace := trace d @ [Read ANNOUNCEMENTS_FILE, Read READ_RECEIPTS_FILE]\<rparr>"
  let ?ids = "map fst (filter (marked f c) anns)"
  have la: "fst (load_json d ANNOUNCEMENTS_FILE (JDict [])) = JDict anns"
    using assms(1) by (simp add: load_json_holds)
  have del: "delete_announcements ?ids anns (JDict rc) 0 =
      Inr (filter (\<lambda>kv. \<not> marked f c kv) anns,
           JDict (filter (\<lambda>kv. fst kv \<notin> set ?ids) rc), int (length ?ids))"
    using delete_all_filter[OF distinct_marked_keys[OF assms(2)] marked_keys, of f c rc 0]
    by (simp only: filter_not_marked[OF assms(2)]) simp
  note u = cleanup_unfold[OF la assms(4) assms(3) refl, of now f, folded assms(8)]
  show ?thesis
  proof (cases "filter (marked f c) anns = []")
    case True
    then have r: "cleanup_old_announcements d now f = (0, ?d2)"
      using u del by (simp split: if_splits)
    have keep: "filter (\<lambda>kv. \<not> marked f c kv) anns = anns"
      using True by (simp add: filter_empty_conv filter_id_conv)
    have "fst (load_json ?d2 ANNOUNCEMENTS_FILE (JDict [])) = JDict anns"
      using load_json_fst_files[of ?d2 ANNOUNCEMENTS_FILE d] la by simp
    moreover have "fst (load_json ?d2 READ_RECEIPTS_FILE (JDict [])) = JDict rc"
      using load_json_fst_files[of ?d2 READ_RECEIPTS_FILE d] assms(4) by simp
    ultimately show ?thesis using r True keep assms(7) by simp
  next
    case False
    then have ne: "anns \<noteq> []" and pos: "0 < int (length ?ids)" by auto
    have r: "cleanup_old_announcements d now f =
        (int (length ?ids),
         snd (save_json (snd (save_json ?d2 ANNOUNCEMENTS_FILE (JDict (filter (\<lambda>kv. \<not> marked f c kv) anns))))
                READ_RECEIPTS_FILE (JDict (filter (\<lambda>kv. fst kv \<notin> set ?ids) rc))))"
      using u del ne pos by simp
    have f': "files d' = (files d)(ANNOUNCEMENTS_FILE := Holds (JDict (filter (\<lambda>kv. \<not> marked f c kv) anns)),
                 READ_RECEIPTS_FILE := Holds (JDict (filter (\<lambda>kv. fst kv \<notin> set ?ids) rc)))"
      using assms(5,6,7) by (simp add: r save_json_def write_file_sync_def)
    have "fst (load_json d' ANNOUNCEMENTS_FILE (JDict [])) = JDict (filter (\<lambda>kv. \<not> marked f c kv) anns)"
      by (rule load_json_holds) (simp_all add: f' paths_differ)
    moreover have "fst (load_json d' READ_RECEIPTS_FILE (JDict [])) =
        JDict (filter (\<lambda>kv. fst kv \<notin> set ?ids) rc)"
      by (rule load_json_holds) (simp_all add: f')
    ultimately show ?thesis using r by simp
  qed
qed

text \<open>
  Claim C4, as the code has it. Let the announcements file hold a mapping of records
  that are mappings, let the receipts load as a mapping (an absent or unreadable
  receipts file loads as the empty one), and let both files accept writes. A record is
  marked exactly when its timestamp yields no local time to compare with the cut-off
  (it is no string, it does not parse, or it parses to a time with a UTC offset) or
  that time is older than the present minus ten days; so a record eleven days old is
  marked and one nine days old is not. \<^verbatim>\<open>cleanup_old_announcements\<close> returns the number
  of marked records; afterwards the announcements document holds exactly the unmarked
  records in their order, and the receipts document holds exactly the entries whose
  key is not the key of a marked record.
\<close>

theorem cleanup_deletes_expired:
  assumes "files d ANNOUNCEMENTS_FILE = Holds (JDict anns)"
    and "distinct (map fst anns)"
    and "list_all (\<lambda>kv. \<exists>flds. snd kv = JDict flds) anns"
    and "fst (load_json d READ_RECEIPTS_FILE (JDict [])) = JDict rc"
    and "\<not> unwritable d ANNOUNCEMENTS_FILE" and "\<not> unwritable d READ_RECEIPTS_FILE"
  shows "fst (cleanup_old_announcements d now f) =
           int (length (filter (marked f (now - RETENTION)) anns))
       \<and> fst (load_json (snd (cleanup_old_announcements d now f)) ANNOUNCEMENTS_FILE (JDict [])) =
           JDict (filter (\<lambda>kv. \<not> marked f (now - RETENTION) kv) anns)
       \<and> fst (load_json (snd (cleanup_old_announcements d now f)) READ_RECEIPTS_FILE (JDict [])) =
           JDict (filter (\<lambda>kv. fst kv \<notin> fst ` set (filter (marked f (now - RETENTION)) anns)) rc)
       \<and> (\<forall>k flds. marked f (now - RETENTION) (k, JDict flds) =
             (\<not> (\<exists>s t. dict_get flds ''timestamp'' (JStr []) = JStr s \<and> f s = Some t
                       \<and> now - RETENTION \<le> t)))"
  using cleanup_deletes_expired_core[OF assms refl refl, of now f] marked_iff[of f "now - RETENTION"]
  by blast

theorem cleanup_deletes_expired_witness:
  "files sweep_disk ANNOUNCEMENTS_FILE = Holds (JDict sweep_doc)
   \<and> distinct (map fst sweep_doc)
   \<and> list_all (\<lambda>kv. \<exists>flds. snd kv = JDict flds) sweep_doc
   \<and> fst (load_json sweep_disk READ_RECEIPTS_FILE (JDict [])) = JDict sweep_receipts
   \<and> \<not> unwritable sweep_disk ANNOUNCEMENTS_FILE \<and> \<not> unwritable sweep_disk READ_RECEIPTS_FILE
   \<and> sample_fromisoformat ''2026-01-01T00:00:00'' = Some (sample_now - 11 * DAY)
   \<and> sample_fromisoformat ''2026-01-03T00:00:00'' = Some (sample_now - 9 * DAY)
   \<and> sample_fromisoformat ''yesterday'' = None
   \<and> fst (cleanup_old_announcements sweep_disk sample_now sample_fromisoformat) = 2
   \<and> fst (load_json (snd (cleanup_old_announcements sweep_disk sample_now sample_fromisoformat))
           ANNOUNCEMENTS_FILE (JDict [])) = JDict [new_record]
   \<and> fst (load_json (snd (cleanup_old_announcements sweep_disk sample_now sample_fromisoformat))
           READ_RECEIPTS_FILE (JDict [])) = JDict [(''new00002'', JList [JInt 7, JInt 8])]"
proof -
  have f: "files sweep_disk ANNOUNCEMENTS_FILE = Holds (JDict sweep_doc)"
    "files sweep_disk READ_RECEIPTS_FILE = Holds (JDict sweep_receipts)"
    "\<not> unwritable sweep_disk ANNOUNCEMENTS_FILE" "\<not> unwritable sweep_disk READ_RECEIPTS_FILE"
    by (simp_all add: sweep_disk_def ANNOUNCEMENTS_FILE_def READ_RECEIPTS_FILE_def)
  have r: "fst (load_json sweep_disk READ_RECEIPTS_FILE (JDict [])) = JDict sweep_receipts"
    using f(2) by (simp add: load_json_holds)
  have d: "distinct (map fst sweep_doc)" "list_all (\<lambda>kv. \<exists>flds. snd kv = JDict flds) sweep_doc"
    by (simp_all add: sweep_doc_def sample_keys)
  have m: "filter (marked sample_fromisoformat (sample_now - RETENTION)) sweep_doc =
             [old_record, bad_record]"
    "filter (\<lambda>kv. \<not> marked sample_fromisoformat (sample_now - RETENTION) kv) sweep_doc =
             [new_record]"
    by (simp_all add: sweep_doc_def sample_marked)
  have c: "sample_fromisoformat ''2026-01-01T00:00:00'' = Some (sample_now - 11 * DAY)"
    "sample_fromisoformat ''2026-01-03T00:00:00'' = Some (sample_now - 9 * DAY)"
    "sample_fromisoformat ''yesterday'' = None"
    by (simp_all add: sample_fromisoformat_def sample_now_def DAY_def)
  show ?thesis
    using cleanup_deletes_expired[OF f(1) d r f(3,4), of sample_now sample_fromisoformat]
    by (simp add: f d r m c sample_keys(1-3) sweep_receipts_def)
qed

text \<open>
  Claim C4 as stated fails on three states, each holding a record eleven days old.
  Beside a record that is the number 5 the sweep returns 0 and the old record stays:
  the number has no \<^verbatim>\<open>get\<close>, and that exception ends the function. With the receipts
  stored as a list that names the old record the sweep returns 0 and the old record
  stays: the entry cannot be deleted from a list. With files that refuse writes the
  sweep returns 1 and the old record stays on disk.
\<close>

theorem cleanup_keeps_expired_counterexample:
  "sample_fromisoformat ''2026-01-01T00:00:00'' = Some (sample_now - 11 * DAY)
   \<and> fst (cleanup_old_announcements scalar_record_disk sample_now sample_fromisoformat) = 0
   \<and> files (snd (cleanup_old_announcements scalar_record_disk sample_now sample_fromisoformat))
         ANNOUNCEMENTS_FILE = Holds (JDict [(''bad00003'', JInt 5), old_record])
   \<and> fst (cleanup_old_announcements list_receipts_disk sample_now sample_fromisoformat) = 0
   \<and> files (snd (cleanup_old_announcements list_receipts_disk sample_now sample_fromisoformat))
         ANNOUNCEMENTS_FILE = Holds (JDict [old_record])
   \<and> fst (cleanup_old_announcements readonly_disk sample_now sample_fromisoformat) = 1
   \<and> files (snd (cleanup_old_announcements readonly_disk sample_now sample_fromisoformat))
         ANNOUNCEMENTS_FILE = Holds (JDict [old_record])"
proof -
  have c: "sample_fromisoformat ''2026-01-01T00:00:00'' = Some (sample_now - 11 * DAY)"
    by (simp add: sample_fromisoformat_def sample_now_def DAY_def)
  have old: "announcements_to_delete sample_fromisoformat (sample_now - RETENTION) [old_record] =
               Inr [''old00001'']"
    by (simp add: old_record_def expired_def dict_get_def sample_fromisoformat_def sample_now_def
          RETENTION_def DAY_def)
  have k: "map_of [old_record] ''old00001'' \<noteq> None" "old_record \<noteq> (''x'', JNull)"
    by (simp_all add: old_record_def)
  have s: "fst (load_json scalar_record_disk ANNOUNCEMENTS_FILE (JDict [])) =
             JDict [(''bad00003'', JInt 5), old_record]"
    by (rule load_json_holds) (simp_all add: scalar_record_disk_def)
  have s0: "cleanup_old_announcements scalar_record_disk sample_now sample_fromisoformat =
      (0, scalar_record_disk\<lparr>trace := trace scalar_record_disk @
            [Read ANNOUNCEMENTS_FILE, Read READ_RECEIPTS_FILE]\<rparr>)"
    by (rule cleanup_stops_on_non_mapping_record[OF s]) simp
  have s1: "files scalar_record_disk ANNOUNCEMENTS_FILE = Holds (JDict [(''bad00003'', JInt 5), old_record])"
    by (simp add: scalar_record_disk_def)
  have l: "files list_receipts_disk ANNOUNCEMENTS_FILE = Holds (JDict [old_record])"
    "files list_receipts_disk READ_RECEIPTS_FILE = Holds (JList [JStr ''old00001''])"
    by (simp_all add: list_receipts_disk_def paths_differ)
  have la: "load_json list_receipts_disk ANNOUNCEMENTS_FILE (JDict []) =
      (JDict [old_record], list_receipts_disk\<lparr>trace := trace list_receipts_disk @ [Read ANNOUNCEMENTS_FILE]\<rparr>)"
    using load_json_pair[of list_receipts_disk ANNOUNCEMENTS_FILE "JDict []"]
      load_json_holds[OF l(1), of "JDict []"] by simp
  have lr: "load_json (list_receipts_disk\<lparr>trace := trace list_receipts_disk @ [Read ANNOUNCEMENTS_FILE]\<rparr>)
              READ_RECEIPTS_FILE (JDict []) =
      (JList [JStr ''old00001''],
       list_receipts_disk\<lparr>trace := trace list_receipts_disk @ [Read ANNOUNCEMENTS_FILE, Read READ_RECEIPTS_FILE]\<rparr>)"
    using load_json_pair[of "list_receipts_disk\<lparr>trace := trace list_receipts_disk @ [Read ANNOUNCEMENTS_FILE]\<rparr>"
        READ_RECEIPTS_FILE "JDict []"]
      load_json_holds[of "list_receipts_disk\<lparr>trace := trace list_receipts_disk @ [Read ANNOUNCEMENTS_FILE]\<rparr>"
        READ_RECEIPTS_FILE "JList [JStr ''old00001'']" "JDict []"] l(2)
    by simp
  have l0: "cleanup_old_announcements list_receipts_disk sample_now sample_fromisoformat =
      (0, list_receipts_disk\<lparr>trace := trace list_receipts_disk @
            [Read ANNOUNCEMENTS_FILE, Read READ_RECEIPTS_FILE]\<rparr>)"
    by (simp add: cleanup_old_announcements_def la lr old k Let_def py_in_def)
  have r: "files readonly_disk ANNOUNCEMENTS_FILE = Holds (JDict [old_record])"
    "files readonly_disk READ_RECEIPTS_FILE = Missing"
    "unwritable readonly_disk ANNOUNCEMENTS_FILE" "unwritable readonly_disk READ_RECEIPTS_FILE"
    by (simp_all add: readonly_disk_def paths_differ[symmetric])
  have ra: "load_json readonly_disk ANNOUNCEMENTS_FILE (JDict []) =
      (JDict [old_record], readonly_disk\<lparr>trace := trace readonly_disk @ [Read ANNOUNCEMENTS_FILE]\<rparr>)"
    using load_json_pair[of readonly_disk ANNOUNCEMENTS_FILE "JDict []"]
      load_json_holds[OF r(1), of "JDict []"] by simp
  have rr: "load_json (readonly_disk\<lparr>trace := trace readonly_disk @ [Read ANNOUNCEMENTS_FILE]\<rparr>)
              READ_RECEIPTS_FILE (JDict []) =
      (JDict [],
       readonly_disk\<lparr>trace := trace readonly_disk @ [Read ANNOUNCEMENTS_FILE, Read READ_RECEIPTS_FILE]\<rparr>)"
    using r(2) by (simp add: load_json_def read_file_sync_def)
  have r0: "fst (cleanup_old_announcements readonly_disk sample_now sample_fromisoformat) = 1
    \<and> files (snd (cleanup_old_announcements readonly_disk sample_now sample_fromisoformat)) = files readonly_disk"
    using r(3,4)
    by (simp add: cleanup_old_announcements_def ra rr old k Let_def save_json_def write_file_sync_def
          sample_keys(1))
  show ?thesis
    using c s0 s1 l0 l(1) r0 r(1) by simp
qed

end
